theory Spec2Isabelle
  imports Main "HOL-Library.Word" "HOL-Library.Signed_Division"
begin

unbundle bit_operations_syntax

section \<open>Result codes, faults and C integers\<close>

text \<open>
  Modelled from the spec: \<^verbatim>\<open>Errors.h\<close>, which declares the result codes, is not among the
  sources. \<^verbatim>\<open>cc_result\<close> is an unsigned 32-bit code, 0 meaning success; the spec names the
  codes INVALID_ARGUMENT, OUT_OF_MEMORY, NOT_SUPPORTED and "no audio output device". Only
  their being nonzero and pairwise distinct is used, so they are constructors here. A
  nonzero code produced by the native audio API is \<open>Native\<close>.
\<close>

datatype cc_result =
    Success
  | ERR_NOT_SUPPORTED
  | ERR_INVALID_ARGUMENT
  | ERR_OUT_OF_MEMORY
  | ERR_NO_AUDIO_OUTPUT
  | Native "32 word"

text \<open>The C idiom \<^verbatim>\<open>if ((res = call())) return res;\<close> on a native code.\<close>

definition native_result :: "32 word \<Rightarrow> cc_result" where
  "native_result w = (if w = 0 then Success else Native w)"

text \<open>
  What C leaves undefined (a null or out-of-bounds access) is a value of its own, so that
  a crash is a branch of the model and never an unspecified HOL value.
\<close>

datatype fault = NullAccess | OutOfBounds | InvalidAccess

text \<open>A pointer is an address; address 0 is the null pointer.\<close>

type_synonym ptr = nat

text \<open>
  C \<^verbatim>\<open>int\<close> values are HOL integers; where a product can leave the 32-bit range the
  two's complement wrap-around is written out.
\<close>

definition int32_wrap :: "int \<Rightarrow> int" where
  "int32_wrap x = (x + 2 ^ 31) mod 2 ^ 32 - 2 ^ 31"

text \<open>
  The conversion of an \<^verbatim>\<open>int\<close> to a signed 16-bit parameter keeps the low 16 bits.
\<close>

definition int16_wrap :: "int \<Rightarrow> int" where
  "int16_wrap x = (x + 2 ^ 15) mod 2 ^ 16 - 2 ^ 15"

text \<open>
  \<^verbatim>\<open>#define Audio_AdjustSampleRate(sampleRate, playbackRate) ((sampleRate * playbackRate) / 100)\<close>
  on \<^verbatim>\<open>int\<close> operands; C division truncates towards zero (\<open>sdiv\<close>).
\<close>

definition Audio_AdjustSampleRate :: "int \<Rightarrow> int \<Rightarrow> int" where
  "Audio_AdjustSampleRate sampleRate playbackRate = int32_wrap (sampleRate * playbackRate) sdiv 100"

text \<open>
  Modelled from the spec: \<^verbatim>\<open>AUDIO_MAX_BUFFERS\<close> is declared in \<^verbatim>\<open>Audio.h\<close>, which is not
  among the sources; the spec gives the platform maximum of buffer slots as 4.
\<close>

definition AUDIO_MAX_BUFFERS :: nat where
  "AUDIO_MAX_BUFFERS = 4"

section \<open>OpenAL backend\<close>

definition AL_FORMAT_MONO16 :: int where "AL_FORMAT_MONO16 = 0x1101"
definition AL_FORMAT_STEREO16 :: int where "AL_FORMAT_STEREO16 = 0x1103"

text \<open>\<^verbatim>\<open>struct AudioContext\<close> of the OpenAL backend; the two arrays have \<^verbatim>\<open>AUDIO_MAX_BUFFERS\<close> cells.\<close>

record al_context =
  source_al :: "32 word"
  buffers_al :: "32 word list"
  freeIDs_al :: "32 word list"
  count_al :: int
  free_al :: int
  sampleRate_al :: int
  format_al :: int

text \<open>
  The OpenAL library is outside the program. What it answers during one call of the
  backend is an input of the model: the code \<^verbatim>\<open>alGetError\<close> yields after each native call
  (the error state is reset before), and the values the library writes back.
\<close>

record al_init_driver =
  alGenSources_err :: "32 word"
  alGenSources_name :: "32 word"
  alGenBuffers_err :: "32 word"
  alGenBuffers_name :: "nat \<Rightarrow> 32 word"

record al_queue_driver =
  alBufferData_err :: "32 word"
  alSourceQueueBuffers_err :: "32 word"

record al_poll_driver =
  alGetSourcei_err :: "32 word"
  alGetSourcei_processed :: int
  alSourceUnqueueBuffers_err :: "32 word"
  alSourceUnqueueBuffers_name :: "32 word"

text \<open>
  \<^verbatim>\<open>Audio_Init\<close>: the source is generated, then \<open>buffers\<close> buffer names are written into
  \<^verbatim>\<open>ctx->buffers\<close> (past the array when \<open>buffers\<close> exceeds its size) and copied to
  \<^verbatim>\<open>ctx->freeIDs\<close>. A failing native call leaves what was assigned before it.
\<close>

definition Audio_Init_OpenAL ::
  "al_context \<Rightarrow> int \<Rightarrow> al_init_driver \<Rightarrow> fault + (cc_result \<times> al_context)" where
  "Audio_Init_OpenAL ctx buffers drv =
     (let ctx1 = ctx\<lparr>source_al := 0, count_al := buffers\<rparr> in
      if alGenSources_err drv \<noteq> 0 then Inr (Native (alGenSources_err drv), ctx1)
      else
        let ctx2 = ctx1\<lparr>source_al := alGenSources_name drv\<rparr> in
        if alGenBuffers_err drv \<noteq> 0 then Inr (Native (alGenBuffers_err drv), ctx2)
        else if int (length (buffers_al ctx2)) < buffers then Inl OutOfBounds
        else
          let n = nat buffers;
              ctx3 = ctx2\<lparr>buffers_al := map (alGenBuffers_name drv) [0..<n] @ drop n (buffers_al ctx2)\<rparr>;
              ctx4 = ctx3\<lparr>freeIDs_al := fold (\<lambda>i ids. ids[i := buffers_al ctx3 ! i]) [0..<n] (freeIDs_al ctx3)\<rparr>
          in if int (length (freeIDs_al ctx3)) < buffers then Inl OutOfBounds
             else Inr (Success, ctx4\<lparr>free_al := buffers\<rparr>))"

definition Audio_SetFormat_OpenAL ::
  "al_context \<Rightarrow> int \<Rightarrow> int \<Rightarrow> int \<Rightarrow> cc_result \<times> al_context" where
  "Audio_SetFormat_OpenAL ctx channels sampleRate playbackRate =
     (let ctx1 = ctx\<lparr>sampleRate_al := Audio_AdjustSampleRate sampleRate playbackRate\<rparr> in
      if channels = 1 then (Success, ctx1\<lparr>format_al := AL_FORMAT_MONO16\<rparr>)
      else if channels = 2 then (Success, ctx1\<lparr>format_al := AL_FORMAT_STEREO16\<rparr>)
      else (ERR_INVALID_ARGUMENT, ctx1))"

text \<open>
  \<^verbatim>\<open>Audio_QueueChunk\<close>: \<^verbatim>\<open>buffer = ctx->freeIDs[--ctx->free]\<close> comes after the test of
  \<^verbatim>\<open>ctx->free\<close>; the chunk and its size are only handed on to \<^verbatim>\<open>alBufferData\<close>.
\<close>

definition Audio_QueueChunk_OpenAL ::
  "al_context \<Rightarrow> ptr \<Rightarrow> nat \<Rightarrow> al_queue_driver \<Rightarrow> fault + (cc_result \<times> al_context)" where
  "Audio_QueueChunk_OpenAL ctx chunk size0 drv =
     (if free_al ctx = 0 then Inr (ERR_INVALID_ARGUMENT, ctx)
      else
        let ctx1 = ctx\<lparr>free_al := free_al ctx - 1\<rparr> in
        if free_al ctx1 < 0 \<or> int (length (freeIDs_al ctx1)) \<le> free_al ctx1 then Inl OutOfBounds
        else if alBufferData_err drv \<noteq> 0 then Inr (Native (alBufferData_err drv), ctx1)
        else if alSourceQueueBuffers_err drv \<noteq> 0 then Inr (Native (alSourceQueueBuffers_err drv), ctx1)
        else Inr (Success, ctx1))"

text \<open>
  \<^verbatim>\<open>Audio_Poll\<close> returns the result code, the value stored through \<^verbatim>\<open>inUse\<close> and the
  context. One buffer is unqueued when the library reports a positive processed count.
\<close>

definition Audio_Poll_OpenAL ::
  "al_context \<Rightarrow> al_poll_driver \<Rightarrow> fault + (cc_result \<times> int \<times> al_context)" where
  "Audio_Poll_OpenAL ctx drv =
     (if source_al ctx = 0 then Inr (Success, 0, ctx)
      else if alGetSourcei_err drv \<noteq> 0 then Inr (Native (alGetSourcei_err drv), 0, ctx)
      else if alGetSourcei_processed drv > 0 then
        (if alSourceUnqueueBuffers_err drv \<noteq> 0
         then Inr (Native (alSourceUnqueueBuffers_err drv), 0, ctx)
         else if free_al ctx < 0 \<or> int (length (freeIDs_al ctx)) \<le> free_al ctx then Inl OutOfBounds
         else
           let ctx1 = ctx\<lparr>freeIDs_al := (freeIDs_al ctx)[nat (free_al ctx) := alSourceUnqueueBuffers_name drv],
                          free_al := free_al ctx + 1\<rparr>
           in Inr (Success, count_al ctx1 - free_al ctx1, ctx1))
      else Inr (Success, count_al ctx - free_al ctx, ctx))"

section \<open>Memory\<close>

text \<open>
  Memory is a store from addresses to bytes; an address that holds no byte is not
  accessible. Address 0 is the null pointer.
\<close>

type_synonym byte = "8 word"
type_synonym heap = "ptr \<Rightarrow> byte option"

definition accessible :: "heap \<Rightarrow> ptr \<Rightarrow> nat \<Rightarrow> bool" where
  "accessible h p n = list_all (\<lambda>i. h (p + i) \<noteq> None) [0..<n]"

definition load :: "heap \<Rightarrow> ptr \<Rightarrow> nat \<Rightarrow> byte list" where
  "load h p n = map (\<lambda>i. case h (p + i) of Some b \<Rightarrow> b | None \<Rightarrow> 0) [0..<n]"

definition store :: "heap \<Rightarrow> ptr \<Rightarrow> byte list \<Rightarrow> heap" where
  "store h p bs = (\<lambda>a. if p \<le> a \<and> a < p + length bs then Some (bs ! (a - p)) else h a)"

definition release :: "heap \<Rightarrow> ptr \<Rightarrow> nat \<Rightarrow> heap" where
  "release h p n = (\<lambda>a. if p \<le> a \<and> a < p + n then None else h a)"

text \<open>
  Modelled from the spec: the platform layer (\<^verbatim>\<open>Platform.h\<close>) is not among the sources; the
  spec has the input copied into the scratch buffer. \<^verbatim>\<open>Mem_Copy(dst, src, numBytes)\<close> is
  \<^verbatim>\<open>memcpy\<close>: both ranges must be accessible and must not overlap. Copying no byte touches
  no memory.
\<close>

definition Mem_Copy :: "heap \<Rightarrow> ptr \<Rightarrow> ptr \<Rightarrow> nat \<Rightarrow> fault + heap" where
  "Mem_Copy h dst src n =
     (if n = 0 then Inr h
      else if dst = 0 \<or> src = 0 then Inl NullAccess
      else if accessible h src n \<and> accessible h dst n \<and> (dst + n \<le> src \<or> src + n \<le> dst)
        then Inr (store h dst (load h src n))
      else Inl InvalidAccess)"

text \<open>
  Modelled from the spec: \<^verbatim>\<open>Mem_TryAlloc\<close> and \<^verbatim>\<open>Mem_TryRealloc\<close> belong to the platform
  layer, which is not among the sources; the spec calls it generic memory allocation that
  reports failure instead of crashing. The pointer they return (null on failure) is an
  input of the model. A new block is accessible; its bytes are indeterminate in C and
  zero here. A successful reallocation releases the old block and keeps its leading
  bytes; a failed one leaves the old block alone.
\<close>

definition Mem_TryAlloc :: "heap \<Rightarrow> ptr \<Rightarrow> nat \<Rightarrow> heap" where
  "Mem_TryAlloc h p n = (if p = 0 then h else store h p (replicate n 0))"

definition Mem_TryRealloc :: "heap \<Rightarrow> ptr \<Rightarrow> nat \<Rightarrow> ptr \<Rightarrow> nat \<Rightarrow> heap" where
  "Mem_TryRealloc h old old_size p n =
     (if p = 0 then h
      else store (release h old old_size) p
             (take n (load h old old_size) @ replicate (n - old_size) 0))"

text \<open>A \<^verbatim>\<open>cc_int16\<close> array seen through a byte pointer, low byte first.\<close>

definition int16_of_bytes :: "byte \<Rightarrow> byte \<Rightarrow> 16 word" where
  "int16_of_bytes lo hi = (ucast lo) OR (push_bit 8 (ucast hi))"

fun bytes_as_int16 :: "byte list \<Rightarrow> 16 word list" where
  "bytes_as_int16 (lo # hi # bs) = int16_of_bytes lo hi # bytes_as_int16 bs"
| "bytes_as_int16 bs = []"

fun int16_as_bytes :: "16 word list \<Rightarrow> byte list" where
  "int16_as_bytes [] = []"
| "int16_as_bytes (s # ss) = ucast s # ucast (drop_bit 8 s) # int16_as_bytes ss"

section \<open>Common backend code: software volume\<close>

text \<open>
  \<^verbatim>\<open>samples[k] = (samples[k] * volume / 100)\<close>: the sample is promoted to \<^verbatim>\<open>int\<close>, the
  quotient truncates towards zero, and the assignment keeps its low 16 bits.
\<close>

definition scale_sample :: "16 word \<Rightarrow> int \<Rightarrow> 16 word" where
  "scale_sample s volume = word_of_int (int32_wrap (sint s * volume) sdiv 100)"

text \<open>The first loop of \<^verbatim>\<open>ApplyVolume\<close>: groups of eight samples while \<open>i < (count & ~0x07)\<close>.\<close>

function ApplyVolume_groups :: "16 word list \<Rightarrow> int \<Rightarrow> int \<Rightarrow> int \<Rightarrow> fault + (16 word list \<times> int)" where
  "ApplyVolume_groups samples i limit volume =
     (if i < limit then
        (if i < 0 \<or> int (length samples) < i + 8 then Inl OutOfBounds
         else
           let k = nat i;
               s0 = samples[k := scale_sample (samples ! k) volume];
               s1 = s0[k + 1 := scale_sample (s0 ! (k + 1)) volume];
               s2 = s1[k + 2 := scale_sample (s1 ! (k + 2)) volume];
               s3 = s2[k + 3 := scale_sample (s2 ! (k + 3)) volume];
               s4 = s3[k + 4 := scale_sample (s3 ! (k + 4)) volume];
               s5 = s4[k + 5 := scale_sample (s4 ! (k + 5)) volume];
               s6 = s5[k + 6 := scale_sample (s5 ! (k + 6)) volume];
               s7 = s6[k + 7 := scale_sample (s6 ! (k + 7)) volume]
           in ApplyVolume_groups s7 (i + 8) limit volume)
      else Inr (samples, i))"
  by pat_completeness auto
termination
  by (relation "measure (\<lambda>(samples, i, limit, volume). nat (limit - i))") auto

text \<open>The second loop: the remaining samples one at a time.\<close>

function ApplyVolume_rest :: "16 word list \<Rightarrow> int \<Rightarrow> int \<Rightarrow> int \<Rightarrow> fault + 16 word list" where
  "ApplyVolume_rest samples i count volume =
     (if i < count then
        (if i < 0 \<or> int (length samples) \<le> i then Inl OutOfBounds
         else ApplyVolume_rest (samples[nat i := scale_sample (samples ! nat i) volume]) (i + 1) count volume)
      else Inr samples)"
  by pat_completeness auto
termination
  by (relation "measure (\<lambda>(samples, i, count, volume). nat (count - i))") auto

definition ApplyVolume :: "16 word list \<Rightarrow> int \<Rightarrow> int \<Rightarrow> fault + 16 word list" where
  "ApplyVolume samples count volume =
     (case ApplyVolume_groups samples 0 (count AND NOT 7) volume of
        Inl f \<Rightarrow> Inl f
      | Inr (samples1, i) \<Rightarrow> ApplyVolume_rest samples1 i count volume)"

section \<open>WinMM backend\<close>

definition WHDR_DONE :: "32 word" where "WHDR_DONE = 1"
definition WHDR_PREPARED :: "32 word" where "WHDR_PREPARED = 2"
definition MMSYSERR_BADDEVICEID :: "32 word" where "MMSYSERR_BADDEVICEID = 2"
definition WAVE_FORMAT_PCM :: int where "WAVE_FORMAT_PCM = 1"

record WAVEHDR =
  lpData :: ptr
  dwBufferLength :: nat
  dwBytesRecorded :: nat
  dwUser :: nat
  dwFlags :: "32 word"
  dwLoops :: nat
  lpNext :: ptr
  reserved :: nat

record WAVEFORMATEX =
  wFormatTag :: int
  nChannels :: int
  nSamplesPerSec :: int
  nAvgBytesPerSec :: int
  nBlockAlign :: int
  wBitsPerSample :: int
  cbSize :: int

text \<open>
  \<^verbatim>\<open>struct AudioContext\<close> of the WinMM backend; \<open>handle_mm\<close> is the \<^verbatim>\<open>HWAVEOUT\<close> (0 when
  null) and \<open>tmpSize_mm\<close>, \<open>tmpData_mm\<close> are \<^verbatim>\<open>_tmpSize\<close> and \<^verbatim>\<open>_tmpData\<close>.
\<close>

record mm_context =
  handle_mm :: ptr
  headers_mm :: "WAVEHDR list"
  count_mm :: int
  channels_mm :: int
  sampleRate_mm :: int
  volume_mm :: int
  tmpSize_mm :: nat
  tmpData_mm :: ptr

text \<open>
  What the Windows multimedia API and the allocator answer during one call of the
  backend, and the native calls a backend function makes, in order.
\<close>

record mm_driver =
  waveOutClose_res :: "32 word"
  waveOutOpen_res :: "32 word"
  waveOutOpen_handle :: ptr
  waveOutGetNumDevs_res :: nat
  waveOutPrepareHeader_res :: "32 word"
  waveOutWrite_res :: "32 word"
  waveOutUnprepareHeader_res :: "nat \<Rightarrow> 32 word"
  Mem_TryAlloc_res :: ptr

datatype mm_call =
    WaveOutClose ptr
  | WaveOutOpen WAVEFORMATEX
  | WaveOutGetNumDevs
  | WaveOutPrepareHeader nat
  | WaveOutWrite nat
  | WaveOutUnprepareHeader nat

definition Audio_Init_WinMM :: "mm_context \<Rightarrow> int \<Rightarrow> fault + (cc_result \<times> mm_context)" where
  "Audio_Init_WinMM ctx buffers =
     (if int (length (headers_mm ctx)) < buffers then Inl OutOfBounds
      else Inr (Success,
        ctx\<lparr>headers_mm := fold (\<lambda>i hs. hs[i := (hs ! i)\<lparr>dwFlags := WHDR_DONE\<rparr>])
                              [0..<nat buffers] (headers_mm ctx),
            count_mm := buffers, volume_mm := 100\<rparr>))"

definition Audio_Reset_WinMM :: "mm_context \<Rightarrow> mm_driver \<Rightarrow> cc_result \<times> mm_context \<times> mm_call list" where
  "Audio_Reset_WinMM ctx drv =
     (if handle_mm ctx = 0 then (Success, ctx, [])
      else (native_result (waveOutClose_res drv), ctx\<lparr>handle_mm := 0\<rparr>, [WaveOutClose (handle_mm ctx)]))"

text \<open>
  \<^verbatim>\<open>Audio_SetFormat\<close>: nothing happens when channels and adjusted rate are the configured
  ones; otherwise the device is closed and opened again with the new format.
  \<^verbatim>\<open>waveOutOpen\<close> stores a handle only when it succeeds.
\<close>

definition Audio_SetFormat_WinMM ::
  "mm_context \<Rightarrow> int \<Rightarrow> int \<Rightarrow> int \<Rightarrow> mm_driver \<Rightarrow> cc_result \<times> mm_context \<times> mm_call list" where
  "Audio_SetFormat_WinMM ctx channels sampleRate0 playbackRate drv =
     (let sampleRate = Audio_AdjustSampleRate sampleRate0 playbackRate in
      if channels_mm ctx = channels \<and> sampleRate_mm ctx = sampleRate then (Success, ctx, [])
      else
        let ctx1 = ctx\<lparr>channels_mm := channels, sampleRate_mm := sampleRate\<rparr>;
            sampleSize = int32_wrap (channels * 2)
        in case Audio_Reset_WinMM ctx1 drv of (res, ctx2, calls) \<Rightarrow>
          if res \<noteq> Success then (res, ctx2, calls)
          else
            let fmt = \<lparr>wFormatTag = WAVE_FORMAT_PCM,
                       nChannels = channels mod 2 ^ 16,
                       nSamplesPerSec = sampleRate mod 2 ^ 32,
                       nAvgBytesPerSec = (sampleRate * sampleSize) mod 2 ^ 32,
                       nBlockAlign = sampleSize mod 2 ^ 16,
                       wBitsPerSample = 16,
                       cbSize = 0\<rparr>;
                ores = waveOutOpen_res drv;
                ctx3 = (if ores = 0 then ctx2\<lparr>handle_mm := waveOutOpen_handle drv\<rparr> else ctx2)
            in if ores = MMSYSERR_BADDEVICEID
               then (if waveOutGetNumDevs_res drv = 0
                     then (ERR_NO_AUDIO_OUTPUT, ctx3, calls @ [WaveOutOpen fmt, WaveOutGetNumDevs])
                     else (native_result ores, ctx3, calls @ [WaveOutOpen fmt, WaveOutGetNumDevs]))
               else (native_result ores, ctx3, calls @ [WaveOutOpen fmt]))"

definition Audio_SetVolume_WinMM :: "mm_context \<Rightarrow> int \<Rightarrow> mm_context" where
  "Audio_SetVolume_WinMM ctx volume = ctx\<lparr>volume_mm := volume\<rparr>"

text \<open>
  \<^verbatim>\<open>AudioBase_AdjustSound(ctx, data, size)\<close>. The arguments \<open>data\<close> and \<open>size0\<close> point to
  the caller's variables: \<open>None\<close> is a null argument, \<open>Some v\<close> a variable holding \<open>v\<close>.
  The result has the returned flag, the context, the new values of the two variables
  and the memory. The test after the allocation is on \<^verbatim>\<open>data\<close>, as in the source.
\<close>

definition AudioBase_AdjustSound ::
  "mm_context \<Rightarrow> ptr option \<Rightarrow> nat option \<Rightarrow> heap \<Rightarrow> ptr
     \<Rightarrow> fault + (bool \<times> mm_context \<times> ptr option \<times> nat option \<times> heap)" where
  "AudioBase_AdjustSound ctx data size0 h alloc =
     (case size0 of None \<Rightarrow> Inl NullAccess
      | Some src_size \<Rightarrow>
        if volume_mm ctx \<ge> 100 then Inr (True, ctx, data, size0, h)
        else
          let grow = tmpSize_mm ctx < src_size;
              h1 = (if grow then
                      (if tmpData_mm ctx \<noteq> 0
                       then Mem_TryRealloc h (tmpData_mm ctx) (tmpSize_mm ctx) alloc src_size
                       else Mem_TryAlloc h alloc src_size)
                    else h)
          in if grow \<and> data = None then Inr (False, ctx, data, size0, h1)
             else
               let ctx1 = (if grow then ctx\<lparr>tmpData_mm := alloc, tmpSize_mm := src_size\<rparr> else ctx);
                   audio = tmpData_mm ctx1
               in case data of None \<Rightarrow> Inl NullAccess
                  | Some src \<Rightarrow>
                    (case Mem_Copy h1 audio src src_size of Inl f \<Rightarrow> Inl f
                     | Inr h2 \<Rightarrow>
                       let n = src_size div 2 in
                       (case ApplyVolume (bytes_as_int16 (load h2 audio (2 * n))) (int n) (volume_mm ctx1) of
                          Inl f \<Rightarrow> Inl f
                        | Inr samples \<Rightarrow>
                            Inr (True, ctx1, Some audio, Some src_size,
                                 store h2 audio (int16_as_bytes samples)))))"

text \<open>
  The loop of \<^verbatim>\<open>Audio_QueueChunk\<close> looks for the first header among the first \<open>count\<close>
  whose \<^verbatim>\<open>WHDR_DONE\<close> flag is set; reading past the array is out of bounds.
\<close>

definition first_done_header :: "WAVEHDR list \<Rightarrow> int \<Rightarrow> nat option" where
  "first_done_header hs count =
     find (\<lambda>i. length hs \<le> i \<or> dwFlags (hs ! i) AND WHDR_DONE \<noteq> 0) [0..<nat count]"

definition Audio_QueueChunk_WinMM ::
  "mm_context \<Rightarrow> ptr \<Rightarrow> nat \<Rightarrow> heap \<Rightarrow> mm_driver
     \<Rightarrow> fault + (cc_result \<times> mm_context \<times> heap \<times> mm_call list)" where
  "Audio_QueueChunk_WinMM ctx chunk0 dataSize0 h drv =
     (case AudioBase_AdjustSound ctx (Some chunk0) (Some dataSize0) h (Mem_TryAlloc_res drv) of
        Inl f \<Rightarrow> Inl f
      | Inr (ok, ctx1, chunk, dataSize, h1) \<Rightarrow>
        if \<not> ok then Inr (ERR_OUT_OF_MEMORY, ctx1, h1, [])
        else
          (case first_done_header (headers_mm ctx1) (count_mm ctx1) of
             None \<Rightarrow> Inr (ERR_INVALID_ARGUMENT, ctx1, h1, [])
           | Some i \<Rightarrow>
             if length (headers_mm ctx1) \<le> i then Inl OutOfBounds
             else
               let hdr = \<lparr>lpData = (case chunk of Some p \<Rightarrow> p | None \<Rightarrow> 0),
                          dwBufferLength = (case dataSize of Some n \<Rightarrow> n | None \<Rightarrow> 0),
                          dwBytesRecorded = 0, dwUser = 0, dwFlags = 0, dwLoops = 1,
                          lpNext = 0, reserved = 0\<rparr>;
                   ctx2 = ctx1\<lparr>headers_mm := (headers_mm ctx1)[i := hdr]\<rparr>
               in if waveOutPrepareHeader_res drv \<noteq> 0
                  then Inr (Native (waveOutPrepareHeader_res drv), ctx2, h1, [WaveOutPrepareHeader i])
                  else if waveOutWrite_res drv \<noteq> 0
                  then Inr (Native (waveOutWrite_res drv), ctx2, h1, [WaveOutPrepareHeader i, WaveOutWrite i])
                  else Inr (Success, ctx2, h1, [WaveOutPrepareHeader i, WaveOutWrite i])))"

definition Audio_Play_WinMM :: "mm_context \<Rightarrow> cc_result" where
  "Audio_Play_WinMM ctx = Success"

text \<open>
  The loop of \<^verbatim>\<open>Audio_Poll\<close> over the header indices still to visit: a header without
  \<^verbatim>\<open>WHDR_DONE\<close> is counted, a done and prepared one is unprepared, and a failing
  unprepare leaves the loop. The function itself writes to no header; the flags are the
  driver's to change.
\<close>

fun Audio_Poll_loop ::
  "WAVEHDR list \<Rightarrow> (nat \<Rightarrow> 32 word) \<Rightarrow> nat list \<Rightarrow> int \<Rightarrow> mm_call list
     \<Rightarrow> fault + (cc_result \<times> int \<times> mm_call list)" where
  "Audio_Poll_loop hs unprepare [] count calls = Inr (Success, count, calls)"
| "Audio_Poll_loop hs unprepare (i # rest) count calls =
     (if length hs \<le> i then Inl OutOfBounds
      else if dwFlags (hs ! i) AND WHDR_DONE = 0
        then Audio_Poll_loop hs unprepare rest (count + 1) calls
      else if dwFlags (hs ! i) AND WHDR_PREPARED = 0
        then Audio_Poll_loop hs unprepare rest count calls
      else if unprepare i \<noteq> 0
        then Inr (Native (unprepare i), count, calls @ [WaveOutUnprepareHeader i])
      else Audio_Poll_loop hs unprepare rest count (calls @ [WaveOutUnprepareHeader i]))"

definition Audio_Poll_WinMM ::
  "mm_context \<Rightarrow> mm_driver \<Rightarrow> fault + (cc_result \<times> int \<times> mm_context \<times> mm_call list)" where
  "Audio_Poll_WinMM ctx drv =
     (case Audio_Poll_loop (headers_mm ctx) (waveOutUnprepareHeader_res drv)
             [0..<nat (count_mm ctx)] 0 [] of
        Inl f \<Rightarrow> Inl f
      | Inr (res, inUse, calls) \<Rightarrow> Inr (res, inUse, ctx, calls))"


section \<open>OpenSL ES backend: format changes\<close>

record sl_context =
  count_sl :: int
  volume_sl :: int
  channels_sl :: int
  sampleRate_sl :: int
  playerObject_sl :: ptr
  playerPlayer_sl :: ptr
  playerQueue_sl :: ptr
  playerRate_sl :: ptr
  playerVolume_sl :: ptr

text \<open>
  The engine handle of the process and what the OpenSL ES engine answers during one call.
  \<open>GetInterface\<close> is asked four times: 0 for play, 1 for the buffer queue, 2 for the
  playback rate, 3 for the volume interface.
\<close>

record sl_driver =
  slEngineEngine :: ptr
  CreateAudioPlayer_res :: "32 word"
  CreateAudioPlayer_object :: ptr
  Realize_res :: "32 word"
  GetInterface_res :: "nat \<Rightarrow> 32 word"
  GetInterface_itf :: "nat \<Rightarrow> ptr"
  SetRate_res :: "32 word"

datatype sl_call =
    SL_Destroy ptr
  | SL_CreateAudioPlayer int int int
  | SL_Realize ptr
  | SL_GetInterface ptr nat
  | SL_SetVolumeLevel ptr int
  | SL_SetRate ptr int

definition Audio_Reset_OpenSLES :: "sl_context \<Rightarrow> sl_context \<times> sl_call list" where
  "Audio_Reset_OpenSLES ctx =
     (if playerObject_sl ctx = 0 then (ctx, [])
      else (ctx\<lparr>playerObject_sl := 0, playerPlayer_sl := 0, playerQueue_sl := 0,
                playerRate_sl := 0, playerVolume_sl := 0\<rparr>,
            [SL_Destroy (playerObject_sl ctx)]))"

text \<open>
  \<^verbatim>\<open>UpdateVolume\<close> passes an attenuation computed in floating point from the volume; the
  call is recorded with the volume it is computed from.
\<close>

definition UpdateVolume :: "sl_context \<Rightarrow> sl_call list" where
  "UpdateVolume ctx =
     (if playerVolume_sl ctx = 0 then []
      else [SL_SetVolumeLevel (playerVolume_sl ctx) (volume_sl ctx)])"

text \<open>
  \<^verbatim>\<open>RecreatePlayer\<close>. The creation call is recorded with the channel count, the rate in
  millihertz and the number of buffers it is given.

  Modelled from the spec: the structures \<^verbatim>\<open>SLDataFormat_PCM\<close> and
  \<^verbatim>\<open>SLDataLocator_AndroidSimpleBufferQueue\<close> are declared in the OpenSL ES headers, which are
  not among the sources; their fields are unsigned 32-bit numbers, so each \<^verbatim>\<open>int\<close> is
  converted on assignment.
\<close>

definition RecreatePlayer ::
  "sl_context \<Rightarrow> int \<Rightarrow> int \<Rightarrow> sl_driver \<Rightarrow> fault + (cc_result \<times> sl_context \<times> sl_call list)" where
  "RecreatePlayer ctx channels sampleRate drv =
     (let ctx1 = ctx\<lparr>channels_sl := channels, sampleRate_sl := sampleRate\<rparr>;
          ctx2 = fst (Audio_Reset_OpenSLES ctx1);
          calls0 = snd (Audio_Reset_OpenSLES ctx1)
      in if slEngineEngine drv = 0 then Inl NullAccess
      else
        let obj = CreateAudioPlayer_object drv;
            ctx3 = ctx2\<lparr>playerObject_sl := obj\<rparr>;
            calls1 = calls0 @ [SL_CreateAudioPlayer (channels mod 2 ^ 32)
                                 (int32_wrap (sampleRate * 1000) mod 2 ^ 32) (count_sl ctx2 mod 2 ^ 32)]
        in if CreateAudioPlayer_res drv \<noteq> 0 then Inr (Native (CreateAudioPlayer_res drv), ctx3, calls1)
        else if obj = 0 then Inl NullAccess
        else if Realize_res drv \<noteq> 0
          then Inr (Native (Realize_res drv), ctx3, calls1 @ [SL_Realize obj])
        else
          let calls2 = calls1 @ [SL_Realize obj, SL_GetInterface obj 0] in
          if GetInterface_res drv 0 \<noteq> 0 then Inr (Native (GetInterface_res drv 0), ctx3, calls2)
          else
            let ctx4 = ctx3\<lparr>playerPlayer_sl := GetInterface_itf drv 0\<rparr>;
                calls3 = calls2 @ [SL_GetInterface obj 1]
            in if GetInterface_res drv 1 \<noteq> 0 then Inr (Native (GetInterface_res drv 1), ctx4, calls3)
            else
              let ctx5 = ctx4\<lparr>playerQueue_sl := GetInterface_itf drv 1\<rparr>;
                  calls4 = calls3 @ [SL_GetInterface obj 2]
              in if GetInterface_res drv 2 \<noteq> 0 then Inr (Native (GetInterface_res drv 2), ctx5, calls4)
              else
                let ctx6 = ctx5\<lparr>playerRate_sl := GetInterface_itf drv 2\<rparr>;
                    calls5 = calls4 @ [SL_GetInterface obj 3]
                in if GetInterface_res drv 3 \<noteq> 0 then Inr (Native (GetInterface_res drv 3), ctx6, calls5)
                else
                  let ctx7 = ctx6\<lparr>playerVolume_sl := GetInterface_itf drv 3\<rparr>
                  in Inr (Success, ctx7, calls5 @ UpdateVolume ctx7))"

text \<open>
  \<^verbatim>\<open>Audio_SetFormat\<close> compares the unadjusted sample rate, recreates the player when the
  format differs, and always ends with \<^verbatim>\<open>SetRate\<close> through \<^verbatim>\<open>ctx->playerRate\<close>.

  Modelled from the spec: the prototype of \<^verbatim>\<open>SetRate\<close> is in the OpenSL ES header, which is not
  among the sources. Its rate parameter is an \<^verbatim>\<open>SLpermille\<close>, a signed 16-bit integer, so the
  \<^verbatim>\<open>int\<close> product \<^verbatim>\<open>playbackRate * 10\<close> is converted to 16 bits at the call; the call is
  recorded with the value the engine receives.
\<close>

definition Audio_SetFormat_OpenSLES ::
  "sl_context \<Rightarrow> int \<Rightarrow> int \<Rightarrow> int \<Rightarrow> sl_driver \<Rightarrow> fault + (cc_result \<times> sl_context \<times> sl_call list)" where
  "Audio_SetFormat_OpenSLES ctx channels sampleRate playbackRate drv =
     (case (if channels_sl ctx \<noteq> channels \<or> sampleRate_sl ctx \<noteq> sampleRate
            then RecreatePlayer ctx channels sampleRate drv
            else Inr (Success, ctx, [])) of
        Inl f \<Rightarrow> Inl f
      | Inr (res, ctx1, calls) \<Rightarrow>
          if res \<noteq> Success then Inr (res, ctx1, calls)
          else if playerRate_sl ctx1 = 0 then Inl NullAccess
          else Inr (native_result (SetRate_res drv), ctx1,
                    calls @ [SL_SetRate (playerRate_sl ctx1) (int16_wrap (int32_wrap (playbackRate * 10)))]))"

section \<open>Chunk allocation\<close>

text \<open>
  An allocation routine yields the result code, the pointers written to \<^verbatim>\<open>chunks\<close>, and
  the number of bytes it asked of the allocator; \<open>dst\<close> is the pointer the allocator
  returned (0 when it failed).
  \<^verbatim>\<open>AudioBase_AllocChunks\<close> asks \<^verbatim>\<open>Mem_TryAlloc(numChunks, size)\<close> for \<open>numChunks\<close> elements of
  \<open>size\<close> bytes, both passed as unsigned 32-bit numbers.
\<close>

definition AudioBase_AllocChunks :: "int \<Rightarrow> int \<Rightarrow> ptr \<Rightarrow> cc_result \<times> int list \<times> nat" where
  "AudioBase_AllocChunks size0 numChunks dst =
     (let request = nat (numChunks mod 2 ^ 32) * nat (size0 mod 2 ^ 32) in
      if dst = 0 then (ERR_OUT_OF_MEMORY, [], request)
      else (Success, map (\<lambda>i. int dst + int32_wrap (size0 * int i)) [0..<nat numChunks], request))"

text \<open>GC/Wii: \<^verbatim>\<open>size = (size + 0x1F) & ~0x1F; dst = memalign(0x20, size);\<close>\<close>

definition Audio_AllocChunks_GCWii :: "32 word \<Rightarrow> int \<Rightarrow> ptr \<Rightarrow> cc_result \<times> int list \<times> nat" where
  "Audio_AllocChunks_GCWii size0 numChunks dst =
     (let size1 = (size0 + 0x1F) AND NOT 0x1F;
          request = unat size1
      in if dst = 0 then (ERR_OUT_OF_MEMORY, [], request)
         else (Success, map (\<lambda>i. int dst + uint (size1 * of_nat i)) [0..<nat numChunks], request))"

text \<open>Dreamcast: \<^verbatim>\<open>size = (size + 0x1F) & ~0x1F; dst = memalign(32, size * numChunks);\<close>\<close>

definition Audio_AllocChunks_Dreamcast :: "32 word \<Rightarrow> int \<Rightarrow> ptr \<Rightarrow> cc_result \<times> int list \<times> nat" where
  "Audio_AllocChunks_Dreamcast size0 numChunks dst =
     (let size1 = (size0 + 0x1F) AND NOT 0x1F;
          request = unat (size1 * word_of_int numChunks)
      in if dst = 0 then (ERR_OUT_OF_MEMORY, [], request)
         else (Success, map (\<lambda>i. int dst + uint (size1 * of_nat i)) [0..<nat numChunks], request))"

text \<open>Every chunk of \<open>size\<close> bytes lies inside the block of \<open>request\<close> bytes at \<open>dst\<close>.\<close>

definition chunks_inside :: "int list \<Rightarrow> nat \<Rightarrow> ptr \<Rightarrow> nat \<Rightarrow> bool" where
  "chunks_inside chunks size0 dst request =
     list_all (\<lambda>c. int dst \<le> c \<and> c + int size0 \<le> int dst + int request) chunks"

section \<open>Audio context pool\<close>

definition POOL_MAX_CONTEXTS :: nat where
  "POOL_MAX_CONTEXTS = 8"

text \<open>
  Modelled from the spec: \<^verbatim>\<open>struct AudioData\<close> is declared in \<^verbatim>\<open>Audio.h\<close>, which is not among
  the sources. The spec lists its contents (PCM pointer, byte size, channel count, sample
  rate, playback rate, volume); the field names are those the pool code reads.
\<close>

record AudioData =
  data_ad :: ptr
  size_ad :: nat
  channels_ad :: int
  sampleRate_ad :: int
  rate_ad :: int
  volume_ad :: int

text \<open>
  Exactly one backend is compiled in. The pool code is written against its functions,
  which are the fields here: \<open>'c\<close> is the backend's \<^verbatim>\<open>struct AudioContext\<close> and \<open>'w\<close> is
  all state outside the contexts (the native library, memory). \<open>Audio_Poll\<close> takes the
  current value of the variable behind \<^verbatim>\<open>inUse\<close> and yields its new value, since a backend
  need not store to it.
\<close>

record ('c, 'w) audio_backend =
  ctx_count :: "'c \<Rightarrow> int"
  Audio_Init :: "'c \<Rightarrow> int \<Rightarrow> 'w \<Rightarrow> fault + (cc_result \<times> 'c \<times> 'w)"
  Audio_Poll :: "'c \<Rightarrow> int \<Rightarrow> 'w \<Rightarrow> fault + (cc_result \<times> int \<times> 'c \<times> 'w)"
  Audio_FastPlay :: "'c \<Rightarrow> AudioData \<Rightarrow> bool"
  Audio_SetVolume :: "'c \<Rightarrow> int \<Rightarrow> 'w \<Rightarrow> fault + ('c \<times> 'w)"
  Audio_SetFormat :: "'c \<Rightarrow> int \<Rightarrow> int \<Rightarrow> int \<Rightarrow> 'w \<Rightarrow> fault + (cc_result \<times> 'c \<times> 'w)"
  Audio_QueueChunk :: "'c \<Rightarrow> ptr \<Rightarrow> nat \<Rightarrow> 'w \<Rightarrow> fault + (cc_result \<times> 'c \<times> 'w)"
  Audio_Play :: "'c \<Rightarrow> 'w \<Rightarrow> fault + (cc_result \<times> 'c \<times> 'w)"

text \<open>The backend functions the pool has called, with the index of the pooled context.\<close>

datatype pool_call =
    CallInit nat
  | CallPoll nat
  | CallSetVolume nat
  | CallSetFormat nat
  | CallQueueChunk nat
  | CallPlay nat

text \<open>
  The state \<^verbatim>\<open>AudioPool_Play\<close> works on: the static array \<^verbatim>\<open>context_pool\<close>, the state
  outside it, the local variable \<^verbatim>\<open>inUse\<close> and the calls made so far.
\<close>

record ('c, 'w) pool_state =
  context_pool :: "'c list"
  world :: 'w
  inUse :: int
  pool_calls :: "pool_call list"

text \<open>One backend call on \<^verbatim>\<open>&context_pool[i]\<close>.\<close>

definition pool_apply ::
  "nat \<Rightarrow> pool_call \<Rightarrow> ('c \<Rightarrow> 'w \<Rightarrow> fault + (cc_result \<times> 'c \<times> 'w)) \<Rightarrow> ('c, 'w) pool_state
     \<Rightarrow> fault + (cc_result \<times> ('c, 'w) pool_state)" where
  "pool_apply i call f st =
     (if length (context_pool st) \<le> i then Inl OutOfBounds
      else case f (context_pool st ! i) (world st) of
        Inl flt \<Rightarrow> Inl flt
      | Inr (res, c, w) \<Rightarrow>
          Inr (res, st\<lparr>context_pool := (context_pool st)[i := c], world := w,
                       pool_calls := pool_calls st @ [call]\<rparr>))"

text \<open>\<^verbatim>\<open>res = Audio_Poll(ctx, &inUse)\<close> on \<^verbatim>\<open>&context_pool[i]\<close>.\<close>

definition pool_Poll ::
  "('c, 'w) audio_backend \<Rightarrow> nat \<Rightarrow> ('c, 'w) pool_state \<Rightarrow> fault + (cc_result \<times> ('c, 'w) pool_state)" where
  "pool_Poll B i st =
     (if length (context_pool st) \<le> i then Inl OutOfBounds
      else case Audio_Poll B (context_pool st ! i) (inUse st) (world st) of
        Inl flt \<Rightarrow> Inl flt
      | Inr (res, n, c, w) \<Rightarrow>
          Inr (res, st\<lparr>context_pool := (context_pool st)[i := c], world := w, inUse := n,
                       pool_calls := pool_calls st @ [CallPoll i]\<rparr>))"

text \<open>\<^verbatim>\<open>if (!ctx->count && (res = Audio_Init(ctx, 1))) return res;\<close>\<close>

definition pool_lazy_Init ::
  "('c, 'w) audio_backend \<Rightarrow> nat \<Rightarrow> ('c, 'w) pool_state \<Rightarrow> fault + (cc_result \<times> ('c, 'w) pool_state)" where
  "pool_lazy_Init B i st =
     (if length (context_pool st) \<le> i then Inl OutOfBounds
      else if ctx_count B (context_pool st ! i) = 0
        then pool_apply i (CallInit i) (\<lambda>c. Audio_Init B c 1) st
      else Inr (Success, st))"

definition PlayAudio ::
  "('c, 'w) audio_backend \<Rightarrow> nat \<Rightarrow> AudioData \<Rightarrow> ('c, 'w) pool_state
     \<Rightarrow> fault + (cc_result \<times> ('c, 'w) pool_state)" where
  "PlayAudio B i data st =
     (case pool_apply i (CallSetVolume i)
             (\<lambda>c w. case Audio_SetVolume B c (volume_ad data) w of
                       Inl flt \<Rightarrow> Inl flt | Inr (c1, w1) \<Rightarrow> Inr (Success, c1, w1)) st of
        Inl flt \<Rightarrow> Inl flt
      | Inr (res0, st1) \<Rightarrow>
        (case pool_apply i (CallSetFormat i)
                (\<lambda>c. Audio_SetFormat B c (channels_ad data) (sampleRate_ad data) (rate_ad data)) st1 of
           Inl flt \<Rightarrow> Inl flt
         | Inr (res1, st2) \<Rightarrow>
           if res1 \<noteq> Success then Inr (res1, st2)
           else
             (case pool_apply i (CallQueueChunk i)
                     (\<lambda>c. Audio_QueueChunk B c (data_ad data) (size_ad data)) st2 of
                Inl flt \<Rightarrow> Inl flt
              | Inr (res2, st3) \<Rightarrow>
                if res2 \<noteq> Success then Inr (res2, st3)
                else pool_apply i (CallPlay i) (Audio_Play B) st3)))"

text \<open>
  The first loop of \<^verbatim>\<open>AudioPool_Play\<close> over the indices still to visit. \<open>Some res\<close> is a
  \<^verbatim>\<open>return res\<close> from inside the loop, \<open>None\<close> is the loop running to its end.
\<close>

fun AudioPool_pass1 ::
  "('c, 'w) audio_backend \<Rightarrow> AudioData \<Rightarrow> nat list \<Rightarrow> ('c, 'w) pool_state
     \<Rightarrow> fault + (cc_result option \<times> ('c, 'w) pool_state)" where
  "AudioPool_pass1 B data [] st = Inr (None, st)"
| "AudioPool_pass1 B data (i # rest) st =
     (case pool_lazy_Init B i st of
        Inl flt \<Rightarrow> Inl flt
      | Inr (res, st1) \<Rightarrow>
        if res \<noteq> Success then Inr (Some res, st1)
        else
          (case pool_Poll B i st1 of
             Inl flt \<Rightarrow> Inl flt
           | Inr (res, st2) \<Rightarrow>
             if res \<noteq> Success then Inr (Some res, st2)
             else if inUse st2 > 0 then AudioPool_pass1 B data rest st2
             else if \<not> Audio_FastPlay B (context_pool st2 ! i) data then AudioPool_pass1 B data rest st2
             else (case PlayAudio B i data st2 of
                     Inl flt \<Rightarrow> Inl flt
                   | Inr (res, st3) \<Rightarrow> Inr (Some res, st3))))"

text \<open>The second loop: no lazy initialisation and no format test.\<close>

fun AudioPool_pass2 ::
  "('c, 'w) audio_backend \<Rightarrow> AudioData \<Rightarrow> nat list \<Rightarrow> ('c, 'w) pool_state
     \<Rightarrow> fault + (cc_result option \<times> ('c, 'w) pool_state)" where
  "AudioPool_pass2 B data [] st = Inr (None, st)"
| "AudioPool_pass2 B data (i # rest) st =
     (case pool_Poll B i st of
        Inl flt \<Rightarrow> Inl flt
      | Inr (res, st2) \<Rightarrow>
        if res \<noteq> Success then Inr (Some res, st2)
        else if inUse st2 > 0 then AudioPool_pass2 B data rest st2
        else (case PlayAudio B i data st2 of
                Inl flt \<Rightarrow> Inl flt
              | Inr (res, st3) \<Rightarrow> Inr (Some res, st3)))"

definition AudioPool_Play ::
  "('c, 'w) audio_backend \<Rightarrow> AudioData \<Rightarrow> ('c, 'w) pool_state
     \<Rightarrow> fault + (cc_result \<times> ('c, 'w) pool_state)" where
  "AudioPool_Play B data st =
     (case AudioPool_pass1 B data [0..<POOL_MAX_CONTEXTS] st of
        Inl flt \<Rightarrow> Inl flt
      | Inr (Some res, st1) \<Rightarrow> Inr (res, st1)
      | Inr (None, st1) \<Rightarrow>
        (case AudioPool_pass2 B data [0..<POOL_MAX_CONTEXTS] st1 of
           Inl flt \<Rightarrow> Inl flt
         | Inr (Some res, st2) \<Rightarrow> Inr (res, st2)
         | Inr (None, st2) \<Rightarrow> Inr (Success, st2)))"

text \<open>The calls by which the pool only looks at a context: lazy initialisation and polling.\<close>

fun scan_call :: "pool_call \<Rightarrow> bool" where
  "scan_call (CallInit i) = True"
| "scan_call (CallPoll i) = True"
| "scan_call c = False"

subsection \<open>The WinMM backend behind the pool\<close>

record mm_world =
  mm_drv :: mm_driver
  mm_heap :: heap
  mm_calls :: "mm_call list"

definition Audio_FastPlay_WinMM :: "mm_context \<Rightarrow> AudioData \<Rightarrow> bool" where
  "Audio_FastPlay_WinMM ctx data =
     (let channels = channels_ad data;
          sampleRate = Audio_AdjustSampleRate (sampleRate_ad data) (rate_ad data)
      in channels_mm ctx = 0 \<or> (channels_mm ctx = channels \<and> sampleRate_mm ctx = sampleRate))"

definition WinMM_backend :: "(mm_context, mm_world) audio_backend" where
  "WinMM_backend =
     \<lparr>ctx_count = count_mm,
      Audio_Init = (\<lambda>c buffers w.
         case Audio_Init_WinMM c buffers of Inl flt \<Rightarrow> Inl flt | Inr (res, c1) \<Rightarrow> Inr (res, c1, w)),
      Audio_Poll = (\<lambda>c n0 w.
         case Audio_Poll_WinMM c (mm_drv w) of
           Inl flt \<Rightarrow> Inl flt
         | Inr (res, n, c1, calls) \<Rightarrow> Inr (res, n, c1, w\<lparr>mm_calls := mm_calls w @ calls\<rparr>)),
      Audio_FastPlay = Audio_FastPlay_WinMM,
      Audio_SetVolume = (\<lambda>c volume w. Inr (Audio_SetVolume_WinMM c volume, w)),
      Audio_SetFormat = (\<lambda>c channels sampleRate playbackRate w.
         case Audio_SetFormat_WinMM c channels sampleRate playbackRate (mm_drv w) of
           (res, c1, calls) \<Rightarrow> Inr (res, c1, w\<lparr>mm_calls := mm_calls w @ calls\<rparr>)),
      Audio_QueueChunk = (\<lambda>c chunk dataSize w.
         case Audio_QueueChunk_WinMM c chunk dataSize (mm_heap w) (mm_drv w) of
           Inl flt \<Rightarrow> Inl flt
         | Inr (res, c1, h1, calls) \<Rightarrow> Inr (res, c1, w\<lparr>mm_heap := h1, mm_calls := mm_calls w @ calls\<rparr>)),
      Audio_Play = (\<lambda>c w. Inr (Audio_Play_WinMM c, c, w))\<rparr>"

subsection \<open>The OpenAL backend behind the pool\<close>

text \<open>
  \<^verbatim>\<open>Audio_SetVolume\<close> hands the gain \<^verbatim>\<open>volume / 100.0f\<close> to \<^verbatim>\<open>alSourcef\<close> and resets the error
  state; \<^verbatim>\<open>Audio_Play\<close> returns what \<^verbatim>\<open>alGetError\<close> yields after \<^verbatim>\<open>alSourcePlay\<close>; format is a
  property of each buffer, so every context can play every sound without recreation.
\<close>

definition Audio_SetVolume_OpenAL :: "al_context \<Rightarrow> int \<Rightarrow> al_context" where
  "Audio_SetVolume_OpenAL ctx volume = ctx"

definition Audio_Play_OpenAL :: "al_context \<Rightarrow> 32 word \<Rightarrow> cc_result" where
  "Audio_Play_OpenAL ctx alSourcePlay_error = native_result alSourcePlay_error"

definition Audio_FastPlay_OpenAL :: "al_context \<Rightarrow> AudioData \<Rightarrow> bool" where
  "Audio_FastPlay_OpenAL ctx data = True"

record al_world =
  al_init_drv :: al_init_driver
  al_queue_drv :: al_queue_driver
  al_poll_drv :: al_poll_driver
  alSourcePlay_err :: "32 word"

definition OpenAL_backend :: "(al_context, al_world) audio_backend" where
  "OpenAL_backend =
     \<lparr>ctx_count = count_al,
      Audio_Init = (\<lambda>c buffers w.
         case Audio_Init_OpenAL c buffers (al_init_drv w) of
           Inl flt \<Rightarrow> Inl flt | Inr (res, c1) \<Rightarrow> Inr (res, c1, w)),
      Audio_Poll = (\<lambda>c n0 w.
         case Audio_Poll_OpenAL c (al_poll_drv w) of
           Inl flt \<Rightarrow> Inl flt | Inr (res, n, c1) \<Rightarrow> Inr (res, n, c1, w)),
      Audio_FastPlay = Audio_FastPlay_OpenAL,
      Audio_SetVolume = (\<lambda>c volume w. Inr (Audio_SetVolume_OpenAL c volume, w)),
      Audio_SetFormat = (\<lambda>c channels sampleRate playbackRate w.
         case Audio_SetFormat_OpenAL c channels sampleRate playbackRate of
           (res, c1) \<Rightarrow> Inr (res, c1, w)),
      Audio_QueueChunk = (\<lambda>c chunk dataSize w.
         case Audio_QueueChunk_OpenAL c chunk dataSize (al_queue_drv w) of
           Inl flt \<Rightarrow> Inl flt | Inr (res, c1) \<Rightarrow> Inr (res, c1, w)),
      Audio_Play = (\<lambda>c w. Inr (Audio_Play_OpenAL c (alSourcePlay_err w), c, w))\<rparr>"

subsection \<open>The null backend behind the pool\<close>

text \<open>\<^verbatim>\<open>struct AudioContext { int count; };\<close> and functions that only return \<^verbatim>\<open>ERR_NOT_SUPPORTED\<close>.\<close>

record null_context =
  count_null :: int

definition Null_backend :: "(null_context, unit) audio_backend" where
  "Null_backend =
     \<lparr>ctx_count = count_null,
      Audio_Init = (\<lambda>c buffers w. Inr (ERR_NOT_SUPPORTED, c, w)),
      Audio_Poll = (\<lambda>c n0 w. Inr (ERR_NOT_SUPPORTED, n0, c, w)),
      Audio_FastPlay = (\<lambda>c data. False),
      Audio_SetVolume = (\<lambda>c volume w. Inr (c, w)),
      Audio_SetFormat = (\<lambda>c channels sampleRate playbackRate w. Inr (ERR_NOT_SUPPORTED, c, w)),
      Audio_QueueChunk = (\<lambda>c chunk dataSize w. Inr (ERR_NOT_SUPPORTED, c, w)),
      Audio_Play = (\<lambda>c w. Inr (ERR_NOT_SUPPORTED, c, w))\<rparr>"

section \<open>Initialised contexts and their slots in flight\<close>



section \<open>Example states\<close>

text \<open>Contexts in static storage before their first use are zero-initialised.\<close>

definition WAVEHDR_zero :: WAVEHDR where
  "WAVEHDR_zero = \<lparr>lpData = 0, dwBufferLength = 0, dwBytesRecorded = 0, dwUser = 0, dwFlags = 0,
     dwLoops = 0, lpNext = 0, reserved = 0\<rparr>"

definition mm_zero_context :: mm_context where
  "mm_zero_context = \<lparr>handle_mm = 0, headers_mm = replicate AUDIO_MAX_BUFFERS WAVEHDR_zero,
     count_mm = 0, channels_mm = 0, sampleRate_mm = 0, volume_mm = 0, tmpSize_mm = 0, tmpData_mm = 0\<rparr>"

definition al_zero_context :: al_context where
  "al_zero_context = \<lparr>source_al = 0, buffers_al = replicate AUDIO_MAX_BUFFERS 0,
     freeIDs_al = replicate AUDIO_MAX_BUFFERS 0, count_al = 0, free_al = 0, sampleRate_al = 0, format_al = 0\<rparr>"

text \<open>Native libraries that accept every call.\<close>

definition mm_driver_ok :: mm_driver where
  "mm_driver_ok = \<lparr>waveOutClose_res = 0, waveOutOpen_res = 0, waveOutOpen_handle = 1,
     waveOutGetNumDevs_res = 1, waveOutPrepareHeader_res = 0, waveOutWrite_res = 0,
     waveOutUnprepareHeader_res = (\<lambda>i. 0), Mem_TryAlloc_res = 32\<rparr>"

definition al_init_driver_ok :: al_init_driver where
  "al_init_driver_ok = \<lparr>alGenSources_err = 0, alGenSources_name = 1, alGenBuffers_err = 0,
     alGenBuffers_name = (\<lambda>i. of_nat i + 1)\<rparr>"

definition al_queue_driver_ok :: al_queue_driver where
  "al_queue_driver_ok = \<lparr>alBufferData_err = 0, alSourceQueueBuffers_err = 0\<rparr>"

text \<open>An OpenAL context after \<^verbatim>\<open>Audio_Init(ctx, 2)\<close> and two queued chunks.\<close>

definition al_full_context :: al_context where
  "al_full_context = \<lparr>source_al = 1, buffers_al = [1, 2, 0, 0], freeIDs_al = [1, 2, 0, 0],
     count_al = 2, free_al = 0, sampleRate_al = 0, format_al = 0\<rparr>"

text \<open>
  A WinMM context with one buffer slot, in flight (its header is not done), playing mono
  at 22050 Hz with volume 50; and a memory holding one sample, 10000, at address 16.
\<close>

definition mm_busy_context :: mm_context where
  "mm_busy_context = mm_zero_context\<lparr>handle_mm := 1, count_mm := 1, channels_mm := 1,
     sampleRate_mm := 22050, volume_mm := 50\<rparr>"


definition heap_example :: heap where
  "heap_example = store (\<lambda>a. None) 16 [0x10, 0x27]"

definition sl_driver_ok :: sl_driver where
  "sl_driver_ok = \<lparr>slEngineEngine = 1, CreateAudioPlayer_res = 0, CreateAudioPlayer_object = 2,
     Realize_res = 0, GetInterface_res = (\<lambda>i. 0), GetInterface_itf = (\<lambda>i. 3 + i), SetRate_res = 0\<rparr>"

text \<open>An OpenSL ES context after \<^verbatim>\<open>Audio_Init(ctx, 1)\<close>, and after \<^verbatim>\<open>Audio_SetFormat(ctx, 2, 44100, 100)\<close>.\<close>

definition sl_init_context :: sl_context where
  "sl_init_context = \<lparr>count_sl = 1, volume_sl = 100, channels_sl = 0, sampleRate_sl = 0,
     playerObject_sl = 0, playerPlayer_sl = 0, playerQueue_sl = 0, playerRate_sl = 0, playerVolume_sl = 0\<rparr>"

definition sl_configured_context :: sl_context where
  "sl_configured_context = \<lparr>count_sl = 1, volume_sl = 100, channels_sl = 2, sampleRate_sl = 44100,
     playerObject_sl = 2, playerPlayer_sl = 3, playerQueue_sl = 4, playerRate_sl = 5, playerVolume_sl = 6\<rparr>"

text \<open>
  A pool of eight WinMM contexts that are all in flight, a sound to play, and the pools
  used to exercise error returns.
\<close>

definition mm_world_ok :: mm_world where
  "mm_world_ok = \<lparr>mm_drv = mm_driver_ok, mm_heap = heap_example, mm_calls = []\<rparr>"

definition mm_busy_pool :: "(mm_context, mm_world) pool_state" where
  "mm_busy_pool = \<lparr>context_pool = replicate POOL_MAX_CONTEXTS mm_busy_context, world = mm_world_ok,
     inUse = 0, pool_calls = []\<rparr>"

definition sound_example :: AudioData where
  "sound_example = \<lparr>data_ad = 16, size_ad = 2, channels_ad = 1, sampleRate_ad = 22050, rate_ad = 100,
     volume_ad = 80\<rparr>"

text \<open>A WinMM context whose only header is done and still prepared.\<close>

definition mm_done_context :: mm_context where
  "mm_done_context = mm_busy_context\<lparr>headers_mm :=
     [WAVEHDR_zero\<lparr>dwFlags := 3\<rparr>, WAVEHDR_zero, WAVEHDR_zero, WAVEHDR_zero]\<rparr>"

text \<open>A driver that refuses to unprepare headers, and a pool whose second context it fails on.\<close>

definition mm_world_unprepare_fails :: mm_world where
  "mm_world_unprepare_fails =
     \<lparr>mm_drv = mm_driver_ok\<lparr>waveOutUnprepareHeader_res := (\<lambda>i. 33)\<rparr>, mm_heap = heap_example, mm_calls = []\<rparr>"

definition mm_failing_pool :: "(mm_context, mm_world) pool_state" where
  "mm_failing_pool = \<lparr>context_pool = mm_busy_context # mm_done_context # replicate 6 mm_busy_context,
     world = mm_world_unprepare_fails, inUse = 0, pool_calls = []\<rparr>"

text \<open>
  A pool of untouched OpenAL contexts with a library that accepts initialisation and then
  fails the processed-buffers query; and the first context after \<^verbatim>\<open>Audio_Init(ctx, 1)\<close>.
\<close>

definition al_world_poll_fails :: al_world where
  "al_world_poll_fails =
     \<lparr>al_init_drv = al_init_driver_ok, al_queue_drv = al_queue_driver_ok,
      al_poll_drv = \<lparr>alGetSourcei_err = 0xA004, alGetSourcei_processed = 0,
                    alSourceUnqueueBuffers_err = 0, alSourceUnqueueBuffers_name = 0\<rparr>,
      alSourcePlay_err = 0\<rparr>"

definition al_fresh_pool :: "(al_context, al_world) pool_state" where
  "al_fresh_pool = \<lparr>context_pool = replicate POOL_MAX_CONTEXTS al_zero_context,
     world = al_world_poll_fails, inUse = 0, pool_calls = []\<rparr>"

definition al_one_context :: al_context where
  "al_one_context = \<lparr>source_al = 1, buffers_al = [1, 0, 0, 0], freeIDs_al = [1, 0, 0, 0],
     count_al = 1, free_al = 1, sampleRate_al = 0, format_al = 0\<rparr>"

definition null_pool :: "(null_context, unit) pool_state" where
  "null_pool = \<lparr>context_pool = replicate POOL_MAX_CONTEXTS \<lparr>count_null = 0\<rparr>, world = (),
     inUse = 0, pool_calls = []\<rparr>"

section \<open>Effective sample rate\<close>

lemma int32_wrap_id: "- (2 ^ 31) \<le> x \<Longrightarrow> x < 2 ^ 31 \<Longrightarrow> int32_wrap x = x"
  by (simp add: int32_wrap_def)

lemma mm_setformat_configures:
  "Audio_SetFormat_WinMM ctx0 channels sampleRate playbackRate drv0 = (res0, ctx1, calls0) \<Longrightarrow>
   channels_mm ctx1 = channels \<and> sampleRate_mm ctx1 = Audio_AdjustSampleRate sampleRate playbackRate"
  by (auto simp: Audio_SetFormat_WinMM_def Audio_Reset_WinMM_def Let_def split: if_splits prod.splits)

text \<open>
  C8. \<^verbatim>\<open>Audio_SetFormat\<close> stores \<^verbatim>\<open>Audio_AdjustSampleRate(sampleRate, playbackRate)\<close> as the
  context's sample rate: OpenAL whatever the channel count, WinMM whatever the driver
  answers. While the product fits a 32-bit \<^verbatim>\<open>int\<close> this is \<open>sampleRate * playbackRate\<close>
  divided by 100 with truncation, and for channels 2, rate 22050 and playback rate 150 it
  is exactly 33075.
\<close>

theorem C8_effective_sample_rate:
  "sampleRate_al (snd (Audio_SetFormat_OpenAL ctx channels sampleRate playbackRate))
     = Audio_AdjustSampleRate sampleRate playbackRate
   \<and> (Audio_SetFormat_WinMM mctx channels sampleRate playbackRate drv = (res, mctx', calls)
        \<longrightarrow> sampleRate_mm mctx' = Audio_AdjustSampleRate sampleRate playbackRate)
   \<and> (- (2 ^ 31) \<le> sampleRate * playbackRate \<and> sampleRate * playbackRate < 2 ^ 31
        \<longrightarrow> Audio_AdjustSampleRate sampleRate playbackRate = (sampleRate * playbackRate) sdiv 100)
   \<and> Audio_SetFormat_OpenAL ctx 2 22050 150
        = (Success, ctx\<lparr>sampleRate_al := 33075, format_al := AL_FORMAT_STEREO16\<rparr>)"
proof -
  have stored: "sampleRate_al (snd (Audio_SetFormat_OpenAL ctx channels sampleRate playbackRate))
      = Audio_AdjustSampleRate sampleRate playbackRate"
    by (simp add: Audio_SetFormat_OpenAL_def Let_def)
  have winmm: "Audio_SetFormat_WinMM mctx channels sampleRate playbackRate drv = (res, mctx', calls)
        \<longrightarrow> sampleRate_mm mctx' = Audio_AdjustSampleRate sampleRate playbackRate"
    using mm_setformat_configures [of mctx channels sampleRate playbackRate drv res mctx' calls]
    by blast
  have exact: "- (2 ^ 31) \<le> sampleRate * playbackRate \<and> sampleRate * playbackRate < 2 ^ 31
      \<longrightarrow> Audio_AdjustSampleRate sampleRate playbackRate = (sampleRate * playbackRate) sdiv 100"
    by (simp add: Audio_AdjustSampleRate_def int32_wrap_id)
  have "Audio_AdjustSampleRate 22050 150 = 33075"
    by (simp add: Audio_AdjustSampleRate_def int32_wrap_def signed_divide_int_def)
  then have inst: "Audio_SetFormat_OpenAL ctx 2 22050 150
      = (Success, ctx\<lparr>sampleRate_al := 33075, format_al := AL_FORMAT_STEREO16\<rparr>)"
    by (simp add: Audio_SetFormat_OpenAL_def Let_def)
  from stored winmm exact inst show ?thesis by blast
qed

theorem C8_effective_sample_rate_witness:
  "- (2 ^ 31) \<le> (44100::int) * 50 \<and> (44100::int) * 50 < 2 ^ 31
   \<and> Audio_AdjustSampleRate 44100 50 = 22050
   \<and> Audio_SetFormat_WinMM (mm_zero_context\<lparr>count_mm := 1, volume_mm := 100\<rparr>) 1 44100 50 mm_driver_ok
       = (Success, mm_zero_context\<lparr>count_mm := 1, volume_mm := 100, channels_mm := 1, sampleRate_mm := 22050,
            handle_mm := 1\<rparr>,
          [WaveOutOpen \<lparr>wFormatTag = 1, nChannels = 1, nSamplesPerSec = 22050, nAvgBytesPerSec = 44100,
                        nBlockAlign = 2, wBitsPerSample = 16, cbSize = 0\<rparr>])
   \<and> sampleRate_mm (mm_zero_context\<lparr>count_mm := 1, volume_mm := 100, channels_mm := 1, sampleRate_mm := 22050,
            handle_mm := 1\<rparr>) = Audio_AdjustSampleRate 44100 50"
proof -
  have a: "Audio_SetFormat_WinMM (mm_zero_context\<lparr>count_mm := 1, volume_mm := 100\<rparr>) 1 44100 50 mm_driver_ok
       = (Success, mm_zero_context\<lparr>count_mm := 1, volume_mm := 100, channels_mm := 1, sampleRate_mm := 22050,
            handle_mm := 1\<rparr>,
          [WaveOutOpen \<lparr>wFormatTag = 1, nChannels = 1, nSamplesPerSec = 22050, nAvgBytesPerSec = 44100,
                        nBlockAlign = 2, wBitsPerSample = 16, cbSize = 0\<rparr>])"
    by code_simp
  have b: "- (2 ^ 31) \<le> (44100::int) * 50" "(44100::int) * 50 < 2 ^ 31" "(44100 * 50) sdiv 100 = (22050::int)"
    by (simp_all add: signed_divide_int_def)
  from C8_effective_sample_rate [where ctx = al_zero_context and channels = 1 and sampleRate = 44100
      and playbackRate = 50 and mctx = "mm_zero_context\<lparr>count_mm := 1, volume_mm := 100\<rparr>"
      and drv = mm_driver_ok] a b
  show ?thesis by simp
qed

section \<open>Software volume: the loops of ApplyVolume\<close>

declare ApplyVolume_groups.simps [simp del]
declare ApplyVolume_rest.simps [simp del]

lemma and_not_mask_int: "(k::int) AND NOT (mask n) = push_bit n (drop_bit n k)"
  by (rule bit_eqI) (auto simp add: bit_simps)

lemma and_not_7: "(k::int) AND NOT 7 = k - k mod 8"
proof -
  have "k AND NOT 7 = push_bit 3 (drop_bit 3 k)"
    using and_not_mask_int [of k 3] by (simp add: mask_eq_exp_minus_1)
  also have "\<dots> = 8 * (k div 8)" by (simp add: push_bit_eq_mult drop_bit_eq_div)
  finally show ?thesis by (simp add: minus_mod_eq_mult_div)
qed

lemma groups_ok:
  "0 \<le> i \<Longrightarrow> i \<le> limit \<Longrightarrow> (limit - i) mod 8 = 0 \<Longrightarrow> limit \<le> int (length samples) \<Longrightarrow>
   \<exists>r. ApplyVolume_groups samples i limit volume = Inr (r, limit) \<and> length r = length samples \<and>
       (\<forall>j<length samples. r ! j = (if nat i \<le> j \<and> j < nat limit then scale_sample (samples ! j) volume else samples ! j))"
proof (induction samples i limit volume rule: ApplyVolume_groups.induct)
  case (1 samples i limit volume)
  show ?case
  proof (cases "i < limit")
    case False
    with 1 have "i = limit" by simp
    then show ?thesis by (subst ApplyVolume_groups.simps) auto
  next
    case True
    with 1(4) have ge: "i + 8 \<le> limit" by presburger
    define k where "k = nat i"
    define s0 where "s0 = samples[k := scale_sample (samples ! k) volume]"
    define s1 where "s1 = s0[k + 1 := scale_sample (s0 ! (k + 1)) volume]"
    define s2 where "s2 = s1[k + 2 := scale_sample (s1 ! (k + 2)) volume]"
    define s3 where "s3 = s2[k + 3 := scale_sample (s2 ! (k + 3)) volume]"
    define s4 where "s4 = s3[k + 4 := scale_sample (s3 ! (k + 4)) volume]"
    define s5 where "s5 = s4[k + 5 := scale_sample (s4 ! (k + 5)) volume]"
    define s6 where "s6 = s5[k + 6 := scale_sample (s5 ! (k + 6)) volume]"
    define s7 where "s7 = s6[k + 7 := scale_sample (s6 ! (k + 7)) volume]"
    note defs = s0_def s1_def s2_def s3_def s4_def s5_def s6_def s7_def
    have len7: "length s7 = length samples" by (simp add: defs)
    have k8: "k + 8 \<le> length samples" using 1(2,5) ge by (simp add: k_def)
    have nth7: "s7 ! j = (if k \<le> j \<and> j < k + 8 then scale_sample (samples ! j) volume else samples ! j)"
      if "j < length samples" for j
      using that k8 by (simp add: defs nth_list_update) arith
    have nb: "\<not> (i < 0 \<or> int (length samples) < i + 8)" using 1 ge by simp
    have unf: "ApplyVolume_groups samples i limit volume = ApplyVolume_groups s7 (i + 8) limit volume"
      using True nb by (subst ApplyVolume_groups.simps) (simp add: defs k_def Let_def)
    have "\<exists>r. ApplyVolume_groups s7 (i + 8) limit volume = Inr (r, limit) \<and> length r = length s7 \<and>
       (\<forall>j<length s7. r ! j = (if nat (i + 8) \<le> j \<and> j < nat limit then scale_sample (s7 ! j) volume else s7 ! j))"
    proof (rule 1(1) [OF True nb, of k s0 s1 s2 s3 s4 s5 s6 s7])
      show "0 \<le> i + 8" using 1(2) by simp
      show "i + 8 \<le> limit" by (rule ge)
      show "(limit - (i + 8)) mod 8 = 0" using 1(4) by presburger
      show "limit \<le> int (length s7)" using 1(5) len7 by simp
    qed (simp_all add: defs k_def)
    then obtain r where r: "ApplyVolume_groups s7 (i + 8) limit volume = Inr (r, limit)"
      "length r = length s7"
      "\<And>j. j < length s7 \<Longrightarrow> r ! j = (if nat (i + 8) \<le> j \<and> j < nat limit then scale_sample (s7 ! j) volume else s7 ! j)"
      by blast
    have "r ! j = (if nat i \<le> j \<and> j < nat limit then scale_sample (samples ! j) volume else samples ! j)"
      if "j < length samples" for j
    proof -
      have "nat (i + 8) = k + 8" using 1(2) by (simp add: k_def)
      then show ?thesis using r(3) [of j] nth7 [of j] that len7 ge 1(2) by (auto simp: k_def)
    qed
    with r(1,2) unf len7 show ?thesis by auto
  qed
qed

lemma rest_ok:
  "0 \<le> i \<Longrightarrow> i \<le> count \<Longrightarrow> count \<le> int (length samples) \<Longrightarrow>
   \<exists>r. ApplyVolume_rest samples i count volume = Inr r \<and> length r = length samples \<and>
       (\<forall>j<length samples. r ! j = (if nat i \<le> j \<and> j < nat count then scale_sample (samples ! j) volume else samples ! j))"
proof (induction samples i count volume rule: ApplyVolume_rest.induct)
  case (1 samples i count volume)
  show ?case
  proof (cases "i < count")
    case False
    with 1 have "i = count" by simp
    then show ?thesis by (subst ApplyVolume_rest.simps) auto
  next
    case True
    define s where "s = samples[nat i := scale_sample (samples ! nat i) volume]"
    have nb: "\<not> (i < 0 \<or> int (length samples) \<le> i)" using 1 True by simp
    have unf: "ApplyVolume_rest samples i count volume = ApplyVolume_rest s (i + 1) count volume"
      using True nb by (subst ApplyVolume_rest.simps) (simp add: s_def)
    have "\<exists>r. ApplyVolume_rest s (i + 1) count volume = Inr r \<and> length r = length s \<and>
       (\<forall>j<length s. r ! j = (if nat (i + 1) \<le> j \<and> j < nat count then scale_sample (s ! j) volume else s ! j))"
      unfolding s_def
      by (rule 1(1) [OF True nb]) (use 1(2-4) True in simp_all)
    then obtain r where r: "ApplyVolume_rest s (i + 1) count volume = Inr r"
      "length r = length s"
      "\<And>j. j < length s \<Longrightarrow> r ! j = (if nat (i + 1) \<le> j \<and> j < nat count then scale_sample (s ! j) volume else s ! j)"
      by blast
    have "r ! j = (if nat i \<le> j \<and> j < nat count then scale_sample (samples ! j) volume else samples ! j)"
      if "j < length samples" for j
      using r(3) [of j] that True 1(2) by (auto simp: s_def nth_list_update)
    with r(1,2) unf show ?thesis by (auto simp: s_def)
  qed
qed

lemma ApplyVolume_ok:
  assumes "0 \<le> count" "count \<le> int (length samples)"
  shows "\<exists>r. ApplyVolume samples count volume = Inr r \<and> length r = length samples \<and>
       (\<forall>j<length samples. r ! j = (if j < nat count then scale_sample (samples ! j) volume else samples ! j))"
proof -
  define limit where "limit = count AND NOT 7"
  have lim: "limit = count - count mod 8" unfolding limit_def by (rule and_not_7)
  have l1: "0 \<le> limit" "limit \<le> count" "(limit - 0) mod 8 = 0"
    using assms(1) unfolding lim by presburger+
  obtain r1 where r1: "ApplyVolume_groups samples 0 limit volume = Inr (r1, limit)" "length r1 = length samples"
     "\<And>j. j < length samples \<Longrightarrow> r1 ! j = (if nat 0 \<le> j \<and> j < nat limit then scale_sample (samples ! j) volume else samples ! j)"
    using groups_ok [of 0 limit samples volume] l1 assms(2) by auto
  obtain r2 where r2: "ApplyVolume_rest r1 limit count volume = Inr r2" "length r2 = length r1"
     "\<And>j. j < length r1 \<Longrightarrow> r2 ! j = (if nat limit \<le> j \<and> j < nat count then scale_sample (r1 ! j) volume else r1 ! j)"
    using rest_ok [of limit count r1 volume] l1 assms(2) r1(2) by auto
  have "r2 ! j = (if j < nat count then scale_sample (samples ! j) volume else samples ! j)"
    if "j < length samples" for j
    using r2(3) [of j] r1(3) [of j] r1(2) that l1 by auto
  moreover have "ApplyVolume samples count volume = Inr r2"
    using r1(1) r2(1) by (simp add: ApplyVolume_def limit_def)
  ultimately show ?thesis using r2(2) r1(2) by auto
qed


section \<open>Slot accounting\<close>



lemma AdjustSound_frame:
  assumes "AudioBase_AdjustSound ctx data size0 h alloc = Inr (ok, ctx', data', size', h')"
  shows "handle_mm ctx' = handle_mm ctx" "headers_mm ctx' = headers_mm ctx" "count_mm ctx' = count_mm ctx"
    "channels_mm ctx' = channels_mm ctx" "sampleRate_mm ctx' = sampleRate_mm ctx" "volume_mm ctx' = volume_mm ctx"
  using assms
  by (auto simp: AudioBase_AdjustSound_def Let_def split: option.splits if_splits sum.splits)

lemma mm_queue_frame:
  assumes a: "Audio_QueueChunk_WinMM ctx chunk n h drv = Inr (res, ctx', h', calls)"
  shows "count_mm ctx' = count_mm ctx \<and> length (headers_mm ctx') = length (headers_mm ctx)"
proof -
  from a obtain ok ctx1 d1 s1 h1 where
    adj: "AudioBase_AdjustSound ctx (Some chunk) (Some n) h (Mem_TryAlloc_res drv) = Inr (ok, ctx1, d1, s1, h1)"
    by (auto simp: Audio_QueueChunk_WinMM_def split: sum.splits)
  from a adj have "count_mm ctx' = count_mm ctx1 \<and> length (headers_mm ctx') = length (headers_mm ctx1)"
    by (auto simp: Audio_QueueChunk_WinMM_def Let_def split: if_splits option.splits)
  with AdjustSound_frame(2,3) [OF adj] show ?thesis by simp
qed
















text \<open>
  What the amended claim leaves out: an \<^verbatim>\<open>Audio_QueueChunk\<close> in which \<^verbatim>\<open>alBufferData\<close> fails has
  already taken the buffer off the free list and does not put it back. Nothing is queued,
  yet the next successful \<^verbatim>\<open>Audio_Poll\<close> reports one slot in use.
\<close>

lemma al_failed_queue_loses_slot:
  "Audio_Init_OpenAL al_zero_context 2 al_init_driver_ok = Inr (Success, al_full_context\<lparr>free_al := 2\<rparr>)
   \<and> Audio_QueueChunk_OpenAL (al_full_context\<lparr>free_al := 2\<rparr>) 16 2
        \<lparr>alBufferData_err = 0xA003, alSourceQueueBuffers_err = 0\<rparr>
       = Inr (Native 0xA003, al_full_context\<lparr>free_al := 1\<rparr>)
   \<and> Audio_Poll_OpenAL (al_full_context\<lparr>free_al := 1\<rparr>)
        \<lparr>alGetSourcei_err = 0, alGetSourcei_processed = 0,
         alSourceUnqueueBuffers_err = 0, alSourceUnqueueBuffers_name = 0\<rparr>
       = Inr (Success, 1, al_full_context\<lparr>free_al := 1\<rparr>)"
  by code_simp






section \<open>Queueing without a free slot\<close>

lemma AdjustSound_unfold:
  assumes "volume_mm ctx < 100"
  shows "AudioBase_AdjustSound ctx (Some p) (Some n) h alloc =
     (let grow = tmpSize_mm ctx < n;
          h1 = (if grow then
                      (if tmpData_mm ctx \<noteq> 0
                       then Mem_TryRealloc h (tmpData_mm ctx) (tmpSize_mm ctx) alloc n
                       else Mem_TryAlloc h alloc n)
                    else h);
          q = (if grow then alloc else tmpData_mm ctx);
          ctx1 = (if grow then ctx\<lparr>tmpData_mm := alloc, tmpSize_mm := n\<rparr> else ctx)
      in case Mem_Copy h1 q p n of Inl f \<Rightarrow> Inl f
         | Inr h2 \<Rightarrow>
           (case ApplyVolume (bytes_as_int16 (load h2 q (2 * (n div 2)))) (int (n div 2)) (volume_mm ctx) of
              Inl f \<Rightarrow> Inl f
            | Inr samples \<Rightarrow> Inr (True, ctx1, Some q, Some n, store h2 q (int16_as_bytes samples))))"
  using assms by (simp add: AudioBase_AdjustSound_def Let_def split: sum.splits)





lemma AdjustSound_tmpSize:
  assumes "AudioBase_AdjustSound ctx (Some chunk) (Some n) h alloc = Inr (ok, ctx', data', size', h')"
  shows "ok" "size' = Some n"
    "tmpSize_mm ctx' = (if volume_mm ctx < 100 \<and> tmpSize_mm ctx < n then n else tmpSize_mm ctx)"
    "tmpData_mm ctx' = (if volume_mm ctx < 100 \<and> tmpSize_mm ctx < n then alloc else tmpData_mm ctx)"
    "data' = (if volume_mm ctx < 100 then Some (tmpData_mm ctx') else Some chunk)"
  using assms
  by (auto simp: AudioBase_AdjustSound_def Let_def split: option.splits if_splits sum.splits)







section \<open>Scratch-buffer allocation failure\<close>

lemma mm_queue_alloc_failure:
  assumes "volume_mm ctx < 100" "tmpSize_mm ctx < n" "Mem_TryAlloc_res drv = 0"
  shows "Audio_QueueChunk_WinMM ctx chunk n h drv = Inl NullAccess"
proof -
  have "AudioBase_AdjustSound ctx (Some chunk) (Some n) h 0 = Inl NullAccess"
    using assms(1,2) by (simp add: AudioBase_AdjustSound_def Let_def Mem_Copy_def)
  with assms(3) show ?thesis by (simp add: Audio_QueueChunk_WinMM_def)
qed

text \<open>
  C4. When the scratch buffer has to grow and the allocator returns null, the claim asks
  for \<^verbatim>\<open>ERR_OUT_OF_MEMORY\<close>. The code tests \<^verbatim>\<open>data\<close>, which is never null, stores the null
  pointer as scratch buffer and copies the chunk to it: a null access, evaluated here on
  a WinMM context at volume 50.
\<close>

theorem C4_alloc_failure_evaluated:
  "Audio_QueueChunk_WinMM mm_busy_context 16 2 heap_example (mm_driver_ok\<lparr>Mem_TryAlloc_res := 0\<rparr>)
     = Inl NullAccess"
proof (rule mm_queue_alloc_failure)
  show "volume_mm mm_busy_context < 100" by code_simp
  show "tmpSize_mm mm_busy_context < 2" by code_simp
  show "Mem_TryAlloc_res (mm_driver_ok\<lparr>Mem_TryAlloc_res := 0\<rparr>) = 0" by simp
qed



section \<open>Software volume: scaling\<close>

lemma scale_sample_zero: "scale_sample s 0 = 0"
  by (simp add: scale_sample_def int32_wrap_def)

lemma sdiv_100_bounds:
  assumes "- 3276800 \<le> (x::int)" "x \<le> 3276700"
  shows "- 32768 \<le> x sdiv 100" "x sdiv 100 \<le> 32767"
  using assms by (auto simp: signed_divide_int_def sgn_if abs_if) 

lemma scale_sample_exact:
  assumes "0 \<le> v" "v \<le> 100"
  shows "sint (scale_sample s v) = (sint s * v) sdiv 100"
proof -
  have r: "- 32768 \<le> sint s" "sint s \<le> 32767"
    using sint_ge [of s] sint_lt [of s] by simp_all
  have lo: "- 3276800 \<le> sint s * v"
  proof -
    have "- 32768 * v \<le> sint s * v" using r(1) assms(1) by (intro mult_right_mono) simp_all
    moreover have "- 3276800 \<le> - 32768 * v" using assms(2) by simp
    ultimately show ?thesis by linarith
  qed
  have hi: "sint s * v \<le> 3276700"
  proof -
    have "sint s * v \<le> 32767 * v" using r(2) assms(1) by (intro mult_right_mono) simp_all
    moreover have "32767 * v \<le> 3276700" using assms(2) by simp
    ultimately show ?thesis by linarith
  qed
  have w: "int32_wrap (sint s * v) = sint s * v"
    using lo hi by (intro int32_wrap_id) simp_all
  have b: "- (2 ^ 15) \<le> (sint s * v) sdiv 100" "(sint s * v) sdiv 100 < 2 ^ 15"
    using sdiv_100_bounds [OF lo hi] by simp_all
  have "sint (word_of_int ((sint s * v) sdiv 100) :: 16 word) = (sint s * v) sdiv 100"
    using signed_take_bit_int_eq_self [OF b] by (simp add: sint_sbintrunc')
  with w show ?thesis by (simp add: scale_sample_def)
qed

lemma length_load [simp]: "length (load h p n) = n"
  by (simp add: load_def)

lemma load_cong: "(\<And>i. i < n \<Longrightarrow> h1 (p + i) = h2 (p + i)) \<Longrightarrow> load h1 p n = load h2 p n"
  by (simp add: load_def)

lemma load_take: "m \<le> n \<Longrightarrow> take m (load h p n) = load h p m"
  by (simp add: load_def take_map)

lemma load_store_prefix: "m \<le> length bs \<Longrightarrow> load (store h p bs) p m = take m bs"
  by (rule nth_equalityI) (auto simp: load_def store_def)

lemma load_store_disjoint:
  "p + n \<le> q \<or> q + length bs \<le> p \<Longrightarrow> load (store h q bs) p n = load h p n"
  by (rule load_cong) (auto simp: store_def)

lemma accessibleD: "accessible h p n \<Longrightarrow> i < n \<Longrightarrow> h (p + i) \<noteq> None"
  by (simp add: accessible_def list_all_iff)

lemma int16_of_bytes_split: "int16_of_bytes (ucast s) (ucast (drop_bit 8 s)) = (s :: 16 word)"
  unfolding int16_of_bytes_def
  by (rule bit_eqI) (auto simp: bit_simps)

lemma bytes_as_int16_inverse: "bytes_as_int16 (int16_as_bytes ss) = ss"
  by (induction ss) (simp_all add: int16_of_bytes_split)

lemma length_int16_as_bytes [simp]: "length (int16_as_bytes ss) = 2 * length ss"
  by (induction ss) simp_all

lemma length_bytes_as_int16 [simp]: "length (bytes_as_int16 bs) = length bs div 2"
  by (induction bs rule: bytes_as_int16.induct) simp_all

lemma ApplyVolume_all:
  assumes "ApplyVolume samples (int (length samples)) v = Inr r"
  shows "r = map (\<lambda>s. scale_sample s v) samples"
proof -
  from ApplyVolume_ok [of "int (length samples)" samples v] assms
  have "length r = length samples" "\<forall>j<length samples. r ! j = scale_sample (samples ! j) v"
    by auto
  then show ?thesis by (intro nth_equalityI) simp_all
qed


lemma store_nil [simp]: "store h p [] = h"
  by (rule ext) (auto simp: store_def)

lemma ApplyVolume_nil: "ApplyVolume [] 0 v = Inr []"
  using ApplyVolume_all [of "[]" v] ApplyVolume_ok [of 0 "[]" v] by auto

lemma grow_step_source:
  assumes acc: "accessible h1 p n" and dis: "q + n \<le> p \<or> p + n \<le> q"
    and h1: "h1 = h \<or> h1 = Mem_TryAlloc h q n
             \<or> (old_size < n \<and> h1 = Mem_TryRealloc h old old_size q n)"
  shows "load h1 p n = load h p n"
proof (rule load_cong)
  fix i assume i: "i < n"
  from accessibleD [OF acc i] have nn: "h1 (p + i) \<noteq> None" .
  from h1 consider "h1 = h" | "h1 = Mem_TryAlloc h q n"
    | "old_size < n" "h1 = Mem_TryRealloc h old old_size q n" by blast
  then show "h1 (p + i) = h (p + i)"
  proof cases
    case 1
    then show ?thesis by simp
  next
    case 2
    then show ?thesis using dis i by (auto simp: Mem_TryAlloc_def store_def)
  next
    case 3
    have len: "length (take n (load h old old_size) @ replicate (n - old_size) 0) = n"
      using 3(1) by simp
    show ?thesis
    proof (cases "q = 0")
      case True
      then show ?thesis using 3 by (simp add: Mem_TryRealloc_def)
    next
      case False
      then have "h1 (p + i) = release h old old_size (p + i)"
        using 3(2) dis i len by (auto simp: Mem_TryRealloc_def store_def)
      with nn show ?thesis by (auto simp: release_def split: if_splits)
    qed
  qed
qed

lemma AdjustSound_scaled:
  assumes v: "volume_mm ctx < 100"
    and r: "AudioBase_AdjustSound ctx (Some p) (Some n) h alloc = Inr (ok, ctx', d', s', h')"
  shows "bytes_as_int16 (load h' (tmpData_mm ctx') (2 * (n div 2)))
           = map (\<lambda>s. scale_sample s (volume_mm ctx)) (bytes_as_int16 (load h p (2 * (n div 2))))"
    and "load h' p n = load h p n"
proof -
  define grow where "grow = (tmpSize_mm ctx < n)"
  define h1 where "h1 = (if grow then
                      (if tmpData_mm ctx \<noteq> 0
                       then Mem_TryRealloc h (tmpData_mm ctx) (tmpSize_mm ctx) alloc n
                       else Mem_TryAlloc h alloc n)
                    else h)"
  define q where "q = (if grow then alloc else tmpData_mm ctx)"
  define m where "m = 2 * (n div 2)"
  have mn: "m \<le> n" by (simp add: m_def)
  define ctx1 where "ctx1 = (if grow then ctx\<lparr>tmpData_mm := alloc, tmpSize_mm := n\<rparr> else ctx)"
  have q1: "tmpData_mm ctx1 = q" by (simp add: ctx1_def q_def)
  have unf: "AudioBase_AdjustSound ctx (Some p) (Some n) h alloc =
     (case Mem_Copy h1 q p n of Inl f \<Rightarrow> Inl f
         | Inr h2 \<Rightarrow>
           (case ApplyVolume (bytes_as_int16 (load h2 q m)) (int (n div 2)) (volume_mm ctx) of
              Inl f \<Rightarrow> Inl f
            | Inr samples \<Rightarrow> Inr (True, ctx1, Some q, Some n, store h2 q (int16_as_bytes samples))))"
    unfolding AdjustSound_unfold [OF v] Let_def grow_def h1_def q_def m_def ctx1_def ..
  from r obtain h2 where cp: "Mem_Copy h1 q p n = Inr h2"
    unfolding unf by (cases "Mem_Copy h1 q p n") simp_all
  from r cp obtain samples where
    av: "ApplyVolume (bytes_as_int16 (load h2 q m)) (int (n div 2)) (volume_mm ctx) = Inr samples"
    unfolding unf
    by (cases "ApplyVolume (bytes_as_int16 (load h2 q m)) (int (n div 2)) (volume_mm ctx)") simp_all
  from r cp av q1 have res: "h' = store h2 q (int16_as_bytes samples)" "tmpData_mm ctx' = q"
    unfolding unf by simp_all
  have len0: "length (bytes_as_int16 (load h2 q m)) = n div 2" by (simp add: m_def)
  from av have samples: "samples = map (\<lambda>s. scale_sample s (volume_mm ctx)) (bytes_as_int16 (load h2 q m))"
    using ApplyVolume_all [of "bytes_as_int16 (load h2 q m)" "volume_mm ctx" samples] len0 by simp
  then have lens: "length (int16_as_bytes samples) = m" by (simp add: m_def)
  have out: "load h' q m = int16_as_bytes samples"
    using load_store_prefix [of m "int16_as_bytes samples" h2 q] lens by (simp add: res(1))
  have "bytes_as_int16 (load h' (tmpData_mm ctx') (2 * (n div 2)))
           = map (\<lambda>s. scale_sample s (volume_mm ctx)) (bytes_as_int16 (load h p (2 * (n div 2))))
     \<and> load h' p n = load h p n"
  proof (cases "n = 0")
    case True
    then show ?thesis by (simp add: load_def)
  next
    case False
    with cp have c: "accessible h1 p n" "accessible h1 q n" "q + n \<le> p \<or> p + n \<le> q"
      "h2 = store h1 q (load h1 p n)" "q \<noteq> 0"
      by (auto simp: Mem_Copy_def split: if_splits)
    have src1: "load h1 p n = load h p n"
    proof (rule grow_step_source [OF c(1) c(3), of h "tmpSize_mm ctx" "tmpData_mm ctx"])
      show "h1 = h \<or> h1 = Mem_TryAlloc h q n
             \<or> (tmpSize_mm ctx < n \<and> h1 = Mem_TryRealloc h (tmpData_mm ctx) (tmpSize_mm ctx) q n)"
        by (auto simp: h1_def q_def grow_def)
    qed
    have "load h2 q m = take m (load h1 p n)"
      using load_store_prefix [of m "load h1 p n" h1 q] mn by (simp add: c(4))
    also have "\<dots> = load h p m" using src1 mn by (simp add: load_take)
    finally have in2: "load h2 q m = load h p m" .
    have one: "bytes_as_int16 (load h' (tmpData_mm ctx') (2 * (n div 2)))
           = map (\<lambda>s. scale_sample s (volume_mm ctx)) (bytes_as_int16 (load h p (2 * (n div 2))))"
      using out samples in2 res(2) by (simp add: m_def [symmetric] bytes_as_int16_inverse)
    have "load h' p n = load h2 p n"
      unfolding res(1) using c(3) lens mn by (intro load_store_disjoint) auto
    also have "\<dots> = load h1 p n"
      unfolding c(4) using c(3) by (intro load_store_disjoint) auto
    finally have "load h' p n = load h p n" using src1 by simp
    with one show ?thesis by simp
  qed
  then show "bytes_as_int16 (load h' (tmpData_mm ctx') (2 * (n div 2)))
           = map (\<lambda>s. scale_sample s (volume_mm ctx)) (bytes_as_int16 (load h p (2 * (n div 2))))"
   and "load h' p n = load h p n" by simp_all
qed


text \<open>
  C5. At a volume of 100 or more \<^verbatim>\<open>AudioBase_AdjustSound\<close> returns the caller's pointer, size,
  context and memory as they were: no copy is made. Below 100, when it returns, the result
  points to the scratch buffer, whose samples are the source samples scaled, and the
  source bytes are unchanged. \<^verbatim>\<open>ApplyVolume\<close> on \<open>count\<close> samples of an array returns, scales
  exactly the first \<open>count\<close> samples and leaves the others. A sample scaled at volume 0 is
  0, and for a volume from 0 to 100 the scaled sample, read as a signed 16-bit value, is
  \<open>sample * volume\<close> divided by 100 with truncation: no wrap-around and no clamping.
\<close>

theorem C5_volume_scaling:
  "(100 \<le> volume_mm ctx \<longrightarrow>
      AudioBase_AdjustSound ctx (Some p) (Some n) h alloc = Inr (True, ctx, Some p, Some n, h))
   \<and> (volume_mm ctx < 100 \<and> AudioBase_AdjustSound ctx (Some p) (Some n) h alloc = Inr (ok, ctx', d', s', h') \<longrightarrow>
        ok \<and> d' = Some (tmpData_mm ctx') \<and> s' = Some n
      \<and> bytes_as_int16 (load h' (tmpData_mm ctx') (2 * (n div 2)))
          = map (\<lambda>s. scale_sample s (volume_mm ctx)) (bytes_as_int16 (load h p (2 * (n div 2))))
      \<and> load h' p n = load h p n)
   \<and> (0 \<le> count \<and> count \<le> int (length samples) \<longrightarrow>
        (\<exists>r. ApplyVolume samples count v = Inr r \<and> length r = length samples
           \<and> (\<forall>j<length samples. r ! j = (if j < nat count then scale_sample (samples ! j) v else samples ! j))))
   \<and> scale_sample s 0 = 0
   \<and> (0 \<le> v \<and> v \<le> 100 \<longrightarrow> sint (scale_sample s v) = (sint s * v) sdiv 100)"
proof -
  have a: "100 \<le> volume_mm ctx \<longrightarrow>
      AudioBase_AdjustSound ctx (Some p) (Some n) h alloc = Inr (True, ctx, Some p, Some n, h)"
    by (simp add: AudioBase_AdjustSound_def)
  have b: "volume_mm ctx < 100 \<and> AudioBase_AdjustSound ctx (Some p) (Some n) h alloc = Inr (ok, ctx', d', s', h') \<longrightarrow>
        ok \<and> d' = Some (tmpData_mm ctx') \<and> s' = Some n
      \<and> bytes_as_int16 (load h' (tmpData_mm ctx') (2 * (n div 2)))
          = map (\<lambda>s. scale_sample s (volume_mm ctx)) (bytes_as_int16 (load h p (2 * (n div 2))))
      \<and> load h' p n = load h p n"
  proof (intro impI, elim conjE)
    assume v: "volume_mm ctx < 100"
      and r: "AudioBase_AdjustSound ctx (Some p) (Some n) h alloc = Inr (ok, ctx', d', s', h')"
    from AdjustSound_tmpSize(1,2,5) [OF r] v have "ok" "s' = Some n" "d' = Some (tmpData_mm ctx')"
      by simp_all
    with AdjustSound_scaled [OF v r] show "ok \<and> d' = Some (tmpData_mm ctx') \<and> s' = Some n
      \<and> bytes_as_int16 (load h' (tmpData_mm ctx') (2 * (n div 2)))
          = map (\<lambda>s. scale_sample s (volume_mm ctx)) (bytes_as_int16 (load h p (2 * (n div 2))))
      \<and> load h' p n = load h p n"
      by simp
  qed
  have c: "0 \<le> count \<and> count \<le> int (length samples) \<longrightarrow>
        (\<exists>r. ApplyVolume samples count v = Inr r \<and> length r = length samples
           \<and> (\<forall>j<length samples. r ! j = (if j < nat count then scale_sample (samples ! j) v else samples ! j)))"
    using ApplyVolume_ok [of count samples v] by blast
  have d: "0 \<le> v \<and> v \<le> 100 \<longrightarrow> sint (scale_sample s v) = (sint s * v) sdiv 100"
    using scale_sample_exact [of v s] by blast
  from a b c d scale_sample_zero [of s] show ?thesis by blast
qed

theorem C5_volume_scaling_witness:
  "100 \<le> volume_mm (mm_busy_context\<lparr>volume_mm := 100\<rparr>)
   \<and> AudioBase_AdjustSound (mm_busy_context\<lparr>volume_mm := 100\<rparr>) (Some 16) (Some 2) heap_example 32
       = Inr (True, mm_busy_context\<lparr>volume_mm := 100\<rparr>, Some 16, Some 2, heap_example)
   \<and> volume_mm mm_busy_context < 100
   \<and> (\<exists>ctx' h'. AudioBase_AdjustSound mm_busy_context (Some 16) (Some 2) heap_example 32
          = Inr (True, ctx', Some 32, Some 2, h')
        \<and> bytes_as_int16 (load h' 32 2) = [scale_sample 10000 50]
        \<and> load h' 16 2 = [0x10, 0x27])
   \<and> (0::int) \<le> 9 \<and> (9::int) \<le> int (length [100, 200, 300, 400, 500, 600, 700, 800, 900, 1000 :: 16 word])
   \<and> ApplyVolume [100, 200, 300, 400, 500, 600, 700, 800, 900, 1000] 9 50
       = Inr [50, 100, 150, 200, 250, 300, 350, 400, 450, 1000]
   \<and> (0::int) \<le> 50 \<and> (50::int) \<le> 100
   \<and> sint (scale_sample (- 3) 50) = - 1 \<and> (sint (- 3 :: 16 word) * 50) sdiv 100 = - 1"
proof -
  have v: "100 \<le> volume_mm (mm_busy_context\<lparr>volume_mm := 100\<rparr>)" "volume_mm mm_busy_context < 100"
    by code_simp+
  have ex: "case AudioBase_AdjustSound mm_busy_context (Some 16) (Some 2) heap_example 32 of
      Inl flt \<Rightarrow> False | Inr (ok, ctx', d', s', h') \<Rightarrow> True"
    by code_simp
  then obtain ok ctx' d' s' h' where
    r: "AudioBase_AdjustSound mm_busy_context (Some 16) (Some 2) heap_example 32 = Inr (ok, ctx', d', s', h')"
    by (cases "AudioBase_AdjustSound mm_busy_context (Some 16) (Some 2) heap_example 32") auto
  have src: "bytes_as_int16 (load heap_example 16 (2 * (2 div 2))) = [10000]" "load heap_example 16 2 = [0x10, 0x27]"
    "volume_mm mm_busy_context = 50" "tmpSize_mm mm_busy_context < 2"
    by code_simp+
  note inst = C5_volume_scaling [where ctx = mm_busy_context and p = 16 and n = 2 and h = heap_example
      and alloc = 32 and ok = ok and ctx' = ctx' and d' = d' and s' = s' and h' = h'
      and count = 9 and samples = "[100, 200, 300, 400, 500, 600, 700, 800, 900, 1000]" and v = 50 and s = "- 3"]
  have q: "tmpData_mm ctx' = 32" using AdjustSound_tmpSize(4) [OF r] src(3,4) by simp
  from inst v(2) r src q have one: "\<exists>ctx' h'. AudioBase_AdjustSound mm_busy_context (Some 16) (Some 2) heap_example 32
          = Inr (True, ctx', Some 32, Some 2, h')
        \<and> bytes_as_int16 (load h' 32 2) = [scale_sample 10000 50]
        \<and> load h' 16 2 = [0x10, 0x27]"
    by auto
  have two: "AudioBase_AdjustSound (mm_busy_context\<lparr>volume_mm := 100\<rparr>) (Some 16) (Some 2) heap_example 32
       = Inr (True, mm_busy_context\<lparr>volume_mm := 100\<rparr>, Some 16, Some 2, heap_example)"
    using C5_volume_scaling [where ctx = "mm_busy_context\<lparr>volume_mm := 100\<rparr>" and p = 16 and n = 2
        and h = heap_example and alloc = 32] v(1) by blast
  have three: "ApplyVolume [100, 200, 300, 400, 500, 600, 700, 800, 900, 1000] 9 50
       = Inr [50, 100, 150, 200, 250, 300, 350, 400, 450, 1000]" by code_simp
  have four: "sint (scale_sample (- 3) 50) = - 1" "(sint (- 3 :: 16 word) * 50) sdiv 100 = - 1"
    by code_simp+
  from v one two three four show ?thesis by simp
qed



section \<open>Setting the same format again\<close>

lemma RecreatePlayer_configures:
  "RecreatePlayer ctx channels sampleRate drv = Inr (res, ctx', calls) \<Longrightarrow>
   channels_sl ctx' = channels \<and> sampleRate_sl ctx' = sampleRate"
  by (auto simp: RecreatePlayer_def Audio_Reset_OpenSLES_def Let_def split: if_splits)

lemma sl_setformat_configures:
  assumes "Audio_SetFormat_OpenSLES ctx0 channels sampleRate playbackRate drv0 = Inr (Success, ctx1, calls0)"
  shows "channels_sl ctx1 = channels \<and> sampleRate_sl ctx1 = sampleRate \<and> playerRate_sl ctx1 \<noteq> 0"
proof (cases "channels_sl ctx0 \<noteq> channels \<or> sampleRate_sl ctx0 \<noteq> sampleRate")
  case True
  with assms obtain res calls where
    "RecreatePlayer ctx0 channels sampleRate drv0 = Inr (res, ctx1, calls)" "playerRate_sl ctx1 \<noteq> 0"
    by (auto simp: Audio_SetFormat_OpenSLES_def split: sum.splits if_splits)
  with RecreatePlayer_configures show ?thesis by blast
next
  case False
  with assms show ?thesis
    by (auto simp: Audio_SetFormat_OpenSLES_def split: if_splits)
qed

text \<open>
  C7 (amended). After \<^verbatim>\<open>Audio_SetFormat\<close> has configured a context, calling it again with the
  same channels, sample rate and playback rate tears nothing down and recreates nothing.
  WinMM makes no native call at all and returns success, whatever the driver would
  answer. OpenSL ES makes the one native call \<^verbatim>\<open>SetRate\<close> on the existing player, with
  \<^verbatim>\<open>playbackRate * 10\<close> converted to the 16-bit rate parameter (which is \<^verbatim>\<open>playbackRate * 10\<close>
  itself for playback rates from -3276 to 3276), and returns its result, so it returns
  success exactly when that call succeeds. The context is unchanged in both.
\<close>

theorem C7_same_format_no_recreation:
  "(Audio_SetFormat_WinMM ctx channels sampleRate playbackRate drv = (res, cfg, calls) \<longrightarrow>
      Audio_SetFormat_WinMM cfg channels sampleRate playbackRate drv' = (Success, cfg, []))
   \<and> (Audio_SetFormat_OpenSLES sctx channels sampleRate playbackRate sdrv = Inr (Success, scfg, scalls) \<longrightarrow>
      Audio_SetFormat_OpenSLES scfg channels sampleRate playbackRate sdrv'
        = Inr (native_result (SetRate_res sdrv'), scfg,
               [SL_SetRate (playerRate_sl scfg) (int16_wrap (int32_wrap (playbackRate * 10)))]))
   \<and> (- 3276 \<le> playbackRate \<and> playbackRate \<le> 3276 \<longrightarrow>
      int16_wrap (int32_wrap (playbackRate * 10)) = playbackRate * 10)"
proof -
  have a: "Audio_SetFormat_WinMM ctx channels sampleRate playbackRate drv = (res, cfg, calls) \<longrightarrow>
      Audio_SetFormat_WinMM cfg channels sampleRate playbackRate drv' = (Success, cfg, [])"
    using mm_setformat_configures [of ctx channels sampleRate playbackRate drv res cfg calls]
    by (simp add: Audio_SetFormat_WinMM_def)
  have b: "Audio_SetFormat_OpenSLES sctx channels sampleRate playbackRate sdrv = Inr (Success, scfg, scalls) \<longrightarrow>
      Audio_SetFormat_OpenSLES scfg channels sampleRate playbackRate sdrv'
        = Inr (native_result (SetRate_res sdrv'), scfg,
               [SL_SetRate (playerRate_sl scfg) (int16_wrap (int32_wrap (playbackRate * 10)))])"
  proof
    assume "Audio_SetFormat_OpenSLES sctx channels sampleRate playbackRate sdrv = Inr (Success, scfg, scalls)"
    from sl_setformat_configures [OF this]
    show "Audio_SetFormat_OpenSLES scfg channels sampleRate playbackRate sdrv'
        = Inr (native_result (SetRate_res sdrv'), scfg,
               [SL_SetRate (playerRate_sl scfg) (int16_wrap (int32_wrap (playbackRate * 10)))])"
      by (simp add: Audio_SetFormat_OpenSLES_def)
  qed
  have c: "- 3276 \<le> playbackRate \<and> playbackRate \<le> 3276 \<longrightarrow>
      int16_wrap (int32_wrap (playbackRate * 10)) = playbackRate * 10"
    by (simp add: int16_wrap_def int32_wrap_def)
  from a b c show ?thesis by blast
qed

text \<open>
  Outside that range the engine receives another rate: a playback rate of 4000 percent
  arrives as -25536 per mille.
\<close>

lemma SetRate_argument_wraps: "int16_wrap (int32_wrap (4000 * 10)) = - 25536"
  by (simp add: int16_wrap_def int32_wrap_def)

text \<open>
  An OpenSL ES context configured for stereo at 44100 Hz: the same call again, with the
  engine rejecting \<^verbatim>\<open>SetRate\<close>, recreates nothing and returns the engine's error.
\<close>

theorem C7_same_format_no_recreation_counterexample:
  "Audio_SetFormat_OpenSLES sl_init_context 2 44100 100 sl_driver_ok
     = Inr (Success, sl_configured_context,
            [SL_CreateAudioPlayer 2 44100000 1, SL_Realize 2, SL_GetInterface 2 0, SL_GetInterface 2 1,
             SL_GetInterface 2 2, SL_GetInterface 2 3, SL_SetVolumeLevel 6 100, SL_SetRate 5 1000])
   \<and> Audio_SetFormat_OpenSLES sl_configured_context 2 44100 100 (sl_driver_ok\<lparr>SetRate_res := 13\<rparr>)
     = Inr (Native 13, sl_configured_context, [SL_SetRate 5 1000])"
  by code_simp

theorem C7_same_format_no_recreation_witness:
  "Audio_SetFormat_WinMM (mm_zero_context\<lparr>count_mm := 1, volume_mm := 100\<rparr>) 2 44100 100 mm_driver_ok
     = (Success, mm_zero_context\<lparr>count_mm := 1, volume_mm := 100, channels_mm := 2, sampleRate_mm := 44100, handle_mm := 1\<rparr>,
        [WaveOutOpen \<lparr>wFormatTag = 1, nChannels = 2, nSamplesPerSec = 44100, nAvgBytesPerSec = 176400,
                      nBlockAlign = 4, wBitsPerSample = 16, cbSize = 0\<rparr>])
   \<and> Audio_SetFormat_WinMM (mm_zero_context\<lparr>count_mm := 1, volume_mm := 100, channels_mm := 2, sampleRate_mm := 44100, handle_mm := 1\<rparr>)
        2 44100 100 (mm_driver_ok\<lparr>waveOutOpen_res := 2\<rparr>)
     = (Success, mm_zero_context\<lparr>count_mm := 1, volume_mm := 100, channels_mm := 2, sampleRate_mm := 44100, handle_mm := 1\<rparr>, [])
   \<and> Audio_SetFormat_OpenSLES sl_init_context 2 44100 100 sl_driver_ok
     = Inr (Success, sl_configured_context,
            [SL_CreateAudioPlayer 2 44100000 1, SL_Realize 2, SL_GetInterface 2 0, SL_GetInterface 2 1,
             SL_GetInterface 2 2, SL_GetInterface 2 3, SL_SetVolumeLevel 6 100, SL_SetRate 5 1000])
   \<and> Audio_SetFormat_OpenSLES sl_configured_context 2 44100 100 sl_driver_ok
     = Inr (Success, sl_configured_context, [SL_SetRate 5 1000])
   \<and> - 3276 \<le> (100 :: int) \<and> (100 :: int) \<le> 3276
   \<and> int16_wrap (int32_wrap (100 * 10)) = 100 * 10"
proof -
  have a: "Audio_SetFormat_WinMM (mm_zero_context\<lparr>count_mm := 1, volume_mm := 100\<rparr>) 2 44100 100 mm_driver_ok
     = (Success, mm_zero_context\<lparr>count_mm := 1, volume_mm := 100, channels_mm := 2, sampleRate_mm := 44100, handle_mm := 1\<rparr>,
        [WaveOutOpen \<lparr>wFormatTag = 1, nChannels = 2, nSamplesPerSec = 44100, nAvgBytesPerSec = 176400,
                      nBlockAlign = 4, wBitsPerSample = 16, cbSize = 0\<rparr>])"
    by code_simp
  have b: "Audio_SetFormat_OpenSLES sl_init_context 2 44100 100 sl_driver_ok
     = Inr (Success, sl_configured_context,
            [SL_CreateAudioPlayer 2 44100000 1, SL_Realize 2, SL_GetInterface 2 0, SL_GetInterface 2 1,
             SL_GetInterface 2 2, SL_GetInterface 2 3, SL_SetVolumeLevel 6 100, SL_SetRate 5 1000])"
    by code_simp
  have c: "native_result (SetRate_res sl_driver_ok) = Success" "playerRate_sl sl_configured_context = 5"
    "int16_wrap (int32_wrap (100 * 10)) = 1000"
    by code_simp+
  from C7_same_format_no_recreation [where ctx = "mm_zero_context\<lparr>count_mm := 1, volume_mm := 100\<rparr>"
      and channels = 2 and sampleRate = 44100 and playbackRate = 100 and drv = mm_driver_ok
      and drv' = "mm_driver_ok\<lparr>waveOutOpen_res := 2\<rparr>"
      and sctx = sl_init_context and sdrv = sl_driver_ok and sdrv' = sl_driver_ok] a b c
  show ?thesis by simp
qed

section \<open>Chunk allocation on GC/Wii\<close>

text \<open>
  C9. For size 100 and 4 chunks the GC/Wii \<^verbatim>\<open>Audio_AllocChunks\<close> rounds the size to 128 and
  asks the allocator for 128 bytes only, yet returns four pointers 128 bytes apart: three
  of the chunks lie outside the allocation. The Dreamcast routine, the same code but for
  the request, asks for 512 bytes, and \<^verbatim>\<open>AudioBase_AllocChunks\<close> for 400 with chunks 100 apart.
\<close>

theorem C9_gcwii_allocation_evaluated:
  "Audio_AllocChunks_GCWii 100 4 4096 = (Success, [4096, 4224, 4352, 4480], 128)
   \<and> \<not> chunks_inside [4096, 4224, 4352, 4480] 128 4096 128
   \<and> Audio_AllocChunks_Dreamcast 100 4 4096 = (Success, [4096, 4224, 4352, 4480], 512)
   \<and> chunks_inside [4096, 4224, 4352, 4480] 128 4096 512
   \<and> AudioBase_AllocChunks 100 4 4096 = (Success, [4096, 4196, 4296, 4396], 400)
   \<and> chunks_inside [4096, 4196, 4296, 4396] 100 4096 400"
  by code_simp



section \<open>The pool when every context is busy, and when a scan call fails\<close>

lemma pool_lazy_Init_calls:
  "pool_lazy_Init B i st = Inr (res, st1) \<Longrightarrow>
   \<exists>tr. pool_calls st1 = pool_calls st @ tr \<and> list_all scan_call tr"
  by (auto simp: pool_lazy_Init_def pool_apply_def split: if_splits sum.splits)

lemma pool_Poll_calls:
  "pool_Poll B i st = Inr (res, st1) \<Longrightarrow>
   \<exists>tr. pool_calls st1 = pool_calls st @ tr \<and> list_all scan_call tr"
  by (auto simp: pool_Poll_def split: if_splits sum.splits)

lemma scan_calls_trans:
  assumes "\<exists>tr. b = a @ tr \<and> list_all scan_call tr" "\<exists>tr. c = b @ tr \<and> list_all scan_call tr"
  shows "\<exists>tr. c = a @ tr \<and> list_all scan_call tr"
proof -
  from assms obtain t1 t2 where "b = a @ t1" "list_all scan_call t1" "c = b @ t2" "list_all scan_call t2"
    by blast
  then have "c = a @ (t1 @ t2) \<and> list_all scan_call (t1 @ t2)" by simp
  then show ?thesis by blast
qed

lemma pass1_step_continue:
  assumes "pool_lazy_Init B i st = Inr (Success, st1)" "pool_Poll B i st1 = Inr (Success, st2)" "0 < inUse st2"
  shows "AudioPool_pass1 B data (i # rest) st = AudioPool_pass1 B data rest st2"
  using assms by simp

lemma pass2_step_continue:
  assumes "pool_Poll B i st = Inr (Success, st2)" "0 < inUse st2"
  shows "AudioPool_pass2 B data (i # rest) st = AudioPool_pass2 B data rest st2"
  using assms by simp

lemma pass1_all_busy:
  assumes step: "\<And>k s. k < n \<Longrightarrow> P k s \<Longrightarrow>
      \<exists>s1 s2. pool_lazy_Init B k s = Inr (Success, s1) \<and> pool_Poll B k s1 = Inr (Success, s2)
        \<and> 0 < inUse s2 \<and> P (Suc k) s2"
  shows "k \<le> n \<Longrightarrow> P k s \<Longrightarrow>
    \<exists>s'. AudioPool_pass1 B data [k..<n] s = Inr (None, s') \<and> P n s'
       \<and> (\<exists>tr. pool_calls s' = pool_calls s @ tr \<and> list_all scan_call tr)"
proof (induction "n - k" arbitrary: k s)
  case 0
  then have "k = n" by simp
  with 0 show ?case by simp
next
  case (Suc d)
  then have kn: "k < n" by simp
  from step [OF kn Suc.prems(2)] obtain s1 s2 where
    s: "pool_lazy_Init B k s = Inr (Success, s1)" "pool_Poll B k s1 = Inr (Success, s2)"
       "0 < inUse s2" "P (Suc k) s2" by blast
  have c2: "\<exists>tr. pool_calls s2 = pool_calls s @ tr \<and> list_all scan_call tr"
    using scan_calls_trans [OF pool_lazy_Init_calls [OF s(1)] pool_Poll_calls [OF s(2)]] .
  have "d = n - Suc k" using Suc.hyps(2) by simp
  from Suc.hyps(1) [OF this _ s(4)] kn obtain s' where
    r: "AudioPool_pass1 B data [Suc k..<n] s2 = Inr (None, s')" "P n s'"
       "\<exists>tr. pool_calls s' = pool_calls s2 @ tr \<and> list_all scan_call tr" by auto
  have "AudioPool_pass1 B data [k..<n] s = AudioPool_pass1 B data [Suc k..<n] s2"
    using pass1_step_continue [OF s(1,2,3)] kn by (simp add: upt_conv_Cons)
  with r scan_calls_trans [OF c2 r(3)] show ?case by auto
qed

lemma pass2_all_busy:
  assumes step: "\<And>k s. k < n \<Longrightarrow> P (m + k) s \<Longrightarrow>
      \<exists>s2. pool_Poll B k s = Inr (Success, s2) \<and> 0 < inUse s2 \<and> P (Suc (m + k)) s2"
  shows "k \<le> n \<Longrightarrow> P (m + k) s \<Longrightarrow>
    \<exists>s'. AudioPool_pass2 B data [k..<n] s = Inr (None, s') \<and> P (m + n) s'
       \<and> (\<exists>tr. pool_calls s' = pool_calls s @ tr \<and> list_all scan_call tr)"
proof (induction "n - k" arbitrary: k s)
  case 0
  then have "k = n" by simp
  with 0 show ?case by simp
next
  case (Suc d)
  then have kn: "k < n" by simp
  from step [OF kn Suc.prems(2)] obtain s2 where
    s: "pool_Poll B k s = Inr (Success, s2)" "0 < inUse s2" "P (Suc (m + k)) s2" by blast
  have "d = n - Suc k" using Suc.hyps(2) by simp
  from Suc.hyps(1) [OF this, of s2] s(3) kn obtain s' where
    r: "AudioPool_pass2 B data [Suc k..<n] s2 = Inr (None, s')" "P (m + n) s'"
       "\<exists>tr. pool_calls s' = pool_calls s2 @ tr \<and> list_all scan_call tr" by auto
  have "AudioPool_pass2 B data [k..<n] s = AudioPool_pass2 B data [Suc k..<n] s2"
    using pass2_step_continue [OF s(1,2)] kn by (simp add: upt_conv_Cons)
  with r scan_calls_trans [OF pool_Poll_calls [OF s(1)] r(3)] show ?case by auto
qed

text \<open>
  C6. \<open>P k\<close> describes the pool state before the \<open>k\<close>-th of the sixteen polls. If in
  every such state the context's lazy initialisation (first pass only) succeeds and
  \<^verbatim>\<open>Audio_Poll\<close> reports success with buffers in use, then \<^verbatim>\<open>AudioPool_Play\<close> returns success and
  the only backend calls it has made are \<^verbatim>\<open>Audio_Init\<close> and \<^verbatim>\<open>Audio_Poll\<close>: it has called none of
  \<^verbatim>\<open>Audio_SetVolume\<close>, \<^verbatim>\<open>Audio_SetFormat\<close>, \<^verbatim>\<open>Audio_QueueChunk\<close> and \<^verbatim>\<open>Audio_Play\<close>.
\<close>

theorem C6_all_busy_dropped:
  assumes start: "P 0 st"
    and pass1: "\<And>k s. k < POOL_MAX_CONTEXTS \<Longrightarrow> P k s \<Longrightarrow>
      \<exists>s1 s2. pool_lazy_Init B k s = Inr (Success, s1) \<and> pool_Poll B k s1 = Inr (Success, s2)
        \<and> 0 < inUse s2 \<and> P (Suc k) s2"
    and pass2: "\<And>k s. k < POOL_MAX_CONTEXTS \<Longrightarrow> P (POOL_MAX_CONTEXTS + k) s \<Longrightarrow>
      \<exists>s2. pool_Poll B k s = Inr (Success, s2) \<and> 0 < inUse s2 \<and> P (Suc (POOL_MAX_CONTEXTS + k)) s2"
  shows "\<exists>st'. AudioPool_Play B data st = Inr (Success, st')
     \<and> P (2 * POOL_MAX_CONTEXTS) st'
     \<and> (\<exists>tr. pool_calls st' = pool_calls st @ tr \<and> list_all scan_call tr)"
proof -
  from pass1_all_busy [of POOL_MAX_CONTEXTS P B 0 st data, OF pass1] start obtain s1 where
    a: "AudioPool_pass1 B data [0..<POOL_MAX_CONTEXTS] st = Inr (None, s1)" "P POOL_MAX_CONTEXTS s1"
       "\<exists>tr. pool_calls s1 = pool_calls st @ tr \<and> list_all scan_call tr" by auto
  from pass2_all_busy [of POOL_MAX_CONTEXTS P POOL_MAX_CONTEXTS B 0 s1 data, OF pass2] a(2) obtain s2 where
    b: "AudioPool_pass2 B data [0..<POOL_MAX_CONTEXTS] s1 = Inr (None, s2)"
       "P (POOL_MAX_CONTEXTS + POOL_MAX_CONTEXTS) s2"
       "\<exists>tr. pool_calls s2 = pool_calls s1 @ tr \<and> list_all scan_call tr" by auto
  have "AudioPool_Play B data st = Inr (Success, s2)"
    using a(1) b(1) by (simp add: AudioPool_Play_def)
  with b(2) scan_calls_trans [OF a(3) b(3)] show ?thesis by (auto simp: mult_2)
qed


lemma mm_busy_poll:
  assumes "context_pool s = replicate POOL_MAX_CONTEXTS mm_busy_context" "world s = mm_world_ok"
    "k < POOL_MAX_CONTEXTS"
  shows "pool_lazy_Init WinMM_backend k s = Inr (Success, s)"
    and "\<exists>s2. pool_Poll WinMM_backend k s = Inr (Success, s2) \<and> 0 < inUse s2
          \<and> context_pool s2 = replicate POOL_MAX_CONTEXTS mm_busy_context \<and> world s2 = mm_world_ok"
proof -
  have c: "count_mm mm_busy_context \<noteq> 0" by code_simp
  have p: "Audio_Poll_WinMM mm_busy_context mm_driver_ok = Inr (Success, 1, mm_busy_context, [])"
    by code_simp
  have w: "mm_drv mm_world_ok = mm_driver_ok" "mm_world_ok\<lparr>mm_calls := mm_calls mm_world_ok @ []\<rparr> = mm_world_ok"
    by (simp_all add: mm_world_ok_def)
  show "pool_lazy_Init WinMM_backend k s = Inr (Success, s)"
    using assms c by (simp add: pool_lazy_Init_def WinMM_backend_def)
  have "pool_Poll WinMM_backend k s = Inr (Success,
      s\<lparr>context_pool := (context_pool s)[k := mm_busy_context], world := mm_world_ok, inUse := 1,
        pool_calls := pool_calls s @ [CallPoll k]\<rparr>)"
    using assms p w by (simp add: pool_Poll_def WinMM_backend_def)
  then show "\<exists>s2. pool_Poll WinMM_backend k s = Inr (Success, s2) \<and> 0 < inUse s2
          \<and> context_pool s2 = replicate POOL_MAX_CONTEXTS mm_busy_context \<and> world s2 = mm_world_ok"
    using assms by (simp add: list_update_same_conv)
qed

theorem C6_all_busy_dropped_witness:
  "\<exists>st'. AudioPool_Play WinMM_backend sound_example mm_busy_pool = Inr (Success, st')
     \<and> context_pool st' = context_pool mm_busy_pool \<and> world st' = world mm_busy_pool
     \<and> list_all scan_call (pool_calls st')"
proof -
  define P :: "nat \<Rightarrow> (mm_context, mm_world) pool_state \<Rightarrow> bool" where
    "P = (\<lambda>k s. context_pool s = replicate POOL_MAX_CONTEXTS mm_busy_context \<and> world s = mm_world_ok)"
  have start: "P 0 mm_busy_pool" by (simp add: P_def mm_busy_pool_def)
  have pass1: "\<exists>s1 s2. pool_lazy_Init WinMM_backend k s = Inr (Success, s1)
        \<and> pool_Poll WinMM_backend k s1 = Inr (Success, s2) \<and> 0 < inUse s2 \<and> P (Suc k) s2"
    if "k < POOL_MAX_CONTEXTS" "P k s" for k s
    using mm_busy_poll [of s k] that by (auto simp: P_def)
  have pass2: "\<exists>s2. pool_Poll WinMM_backend k s = Inr (Success, s2) \<and> 0 < inUse s2
        \<and> P (Suc (POOL_MAX_CONTEXTS + k)) s2"
    if "k < POOL_MAX_CONTEXTS" "P (POOL_MAX_CONTEXTS + k) s" for k s
    using mm_busy_poll(2) [of s k] that by (auto simp: P_def)
  from C6_all_busy_dropped [of P mm_busy_pool WinMM_backend sound_example, OF start pass1 pass2]
  show ?thesis by (auto simp: P_def mm_busy_pool_def)
qed

lemma pass1_append:
  "AudioPool_pass1 B data (xs @ ys) st =
     (case AudioPool_pass1 B data xs st of
        Inl flt \<Rightarrow> Inl flt
      | Inr (Some res, st1) \<Rightarrow> Inr (Some res, st1)
      | Inr (None, st1) \<Rightarrow> AudioPool_pass1 B data ys st1)"
proof (induction xs arbitrary: st)
  case Nil
  then show ?case by simp
next
  case (Cons i xs)
  show ?case by (simp add: Cons.IH split: sum.splits prod.splits option.splits)
qed

lemma pass1_None_calls:
  "AudioPool_pass1 B data xs st = Inr (None, st') \<Longrightarrow>
   \<exists>tr. pool_calls st' = pool_calls st @ tr \<and> list_all scan_call tr"
proof (induction xs arbitrary: st)
  case Nil
  then show ?case by simp
next
  case (Cons i xs)
  from Cons.prems obtain st1 where a: "pool_lazy_Init B i st = Inr (Success, st1)"
    by (auto split: sum.splits if_splits)
  with Cons.prems obtain st2 where b: "pool_Poll B i st1 = Inr (Success, st2)"
    by (auto split: sum.splits if_splits)
  from Cons.prems a b have "AudioPool_pass1 B data xs st2 = Inr (None, st')"
    by (auto split: sum.splits if_splits)
  from Cons.IH [OF this] scan_calls_trans [OF pool_lazy_Init_calls [OF a] pool_Poll_calls [OF b]]
  show ?case using scan_calls_trans by blast
qed

lemma pass1_return_at:
  assumes i: "i < POOL_MAX_CONTEXTS" and pre: "AudioPool_pass1 B data [0..<i] st0 = Inr (None, st)"
    and at: "AudioPool_pass1 B data [i] st = Inr (Some res, st')"
  shows "AudioPool_Play B data st0 = Inr (res, st')"
proof -
  have a: "[0..<i] @ [i..<POOL_MAX_CONTEXTS] = [0..<POOL_MAX_CONTEXTS]"
    using i upt_add_eq_append [of 0 i "POOL_MAX_CONTEXTS - i"] by simp
  have b: "[i..<POOL_MAX_CONTEXTS] = [i] @ [Suc i..<POOL_MAX_CONTEXTS]"
    using i by (simp add: upt_conv_Cons)
  have "[0..<POOL_MAX_CONTEXTS] = [0..<i] @ [i] @ [Suc i..<POOL_MAX_CONTEXTS]"
    unfolding a [symmetric] b ..
  then have "AudioPool_pass1 B data [0..<POOL_MAX_CONTEXTS] st0 = Inr (Some res, st')"
    using pre at by (simp add: pass1_append del: AudioPool_pass1.simps append.simps upt.simps)
  then show ?thesis by (simp add: AudioPool_Play_def)
qed


text \<open>
  C10. Let the first loop have skipped the contexts before \<open>i\<close>, reaching state \<open>st\<close>. If
  the lazy \<^verbatim>\<open>Audio_Init\<close> of context \<open>i\<close> fails, or its \<^verbatim>\<open>Audio_Poll\<close> fails (with or without a
  successful lazy initialisation before), \<^verbatim>\<open>AudioPool_Play\<close> returns that error code. The
  state it returns is \<open>st\<close> with context \<open>i\<close> as the failing call left it and that call
  appended to the calls made, so no later context was visited; and the calls made up to
  \<open>st\<close> are initialisations and polls only, so nothing was queued.
\<close>

theorem C10_pass1_error_returns:
  assumes i: "i < POOL_MAX_CONTEXTS" "i < length (context_pool st)"
    and pre: "AudioPool_pass1 B data [0..<i] st0 = Inr (None, st)"
  shows "(ctx_count B (context_pool st ! i) = 0
          \<and> Audio_Init B (context_pool st ! i) 1 (world st) = Inr (res, c, w) \<and> res \<noteq> Success \<longrightarrow>
            AudioPool_Play B data st0
              = Inr (res, st\<lparr>context_pool := (context_pool st)[i := c], world := w,
                             pool_calls := pool_calls st @ [CallInit i]\<rparr>))
       \<and> (ctx_count B (context_pool st ! i) \<noteq> 0
          \<and> Audio_Poll B (context_pool st ! i) (inUse st) (world st) = Inr (res, n, c, w) \<and> res \<noteq> Success \<longrightarrow>
            AudioPool_Play B data st0
              = Inr (res, st\<lparr>context_pool := (context_pool st)[i := c], world := w, inUse := n,
                             pool_calls := pool_calls st @ [CallPoll i]\<rparr>))
       \<and> (ctx_count B (context_pool st ! i) = 0
          \<and> Audio_Init B (context_pool st ! i) 1 (world st) = Inr (Success, c1, w1)
          \<and> Audio_Poll B c1 (inUse st) w1 = Inr (res, n, c, w) \<and> res \<noteq> Success \<longrightarrow>
            AudioPool_Play B data st0
              = Inr (res, st\<lparr>context_pool := (context_pool st)[i := c], world := w, inUse := n,
                             pool_calls := pool_calls st @ [CallInit i, CallPoll i]\<rparr>))
       \<and> (\<exists>tr. pool_calls st = pool_calls st0 @ tr \<and> list_all scan_call tr)"
proof -
  note ret = pass1_return_at [OF i(1) pre]
  have a: "AudioPool_Play B data st0
              = Inr (res, st\<lparr>context_pool := (context_pool st)[i := c], world := w,
                             pool_calls := pool_calls st @ [CallInit i]\<rparr>)"
    if "ctx_count B (context_pool st ! i) = 0"
      "Audio_Init B (context_pool st ! i) 1 (world st) = Inr (res, c, w)" "res \<noteq> Success"
    using that i(2) by (intro ret) (simp add: pool_lazy_Init_def pool_apply_def)
  have b: "AudioPool_Play B data st0
              = Inr (res, st\<lparr>context_pool := (context_pool st)[i := c], world := w, inUse := n,
                             pool_calls := pool_calls st @ [CallPoll i]\<rparr>)"
    if "ctx_count B (context_pool st ! i) \<noteq> 0"
      "Audio_Poll B (context_pool st ! i) (inUse st) (world st) = Inr (res, n, c, w)" "res \<noteq> Success"
    using that i(2) by (intro ret) (simp add: pool_lazy_Init_def pool_Poll_def)
  have c: "AudioPool_Play B data st0
              = Inr (res, st\<lparr>context_pool := (context_pool st)[i := c], world := w, inUse := n,
                             pool_calls := pool_calls st @ [CallInit i, CallPoll i]\<rparr>)"
    if "ctx_count B (context_pool st ! i) = 0"
      "Audio_Init B (context_pool st ! i) 1 (world st) = Inr (Success, c1, w1)"
      "Audio_Poll B c1 (inUse st) w1 = Inr (res, n, c, w)" "res \<noteq> Success"
    using that i(2) by (intro ret) (simp add: pool_lazy_Init_def pool_apply_def pool_Poll_def)
  from a b c pass1_None_calls [OF pre] show ?thesis by blast
qed

theorem C10_pass1_error_returns_witness:
  "AudioPool_Play Null_backend sound_example null_pool
     = Inr (ERR_NOT_SUPPORTED, null_pool\<lparr>pool_calls := [CallInit 0]\<rparr>)
   \<and> AudioPool_Play WinMM_backend sound_example mm_failing_pool
     = Inr (Native 33, mm_failing_pool\<lparr>
          world := mm_world_unprepare_fails\<lparr>mm_calls := [WaveOutUnprepareHeader 0]\<rparr>,
          inUse := 0, pool_calls := [CallPoll 0, CallPoll 1]\<rparr>)
   \<and> AudioPool_Play OpenAL_backend sound_example al_fresh_pool
     = Inr (Native 0xA004, al_fresh_pool\<lparr>
          context_pool := al_one_context # replicate 7 al_zero_context,
          inUse := 0, pool_calls := [CallInit 0, CallPoll 0]\<rparr>)"
proof -
  have n0: "(0::nat) < POOL_MAX_CONTEXTS" "0 < length (context_pool null_pool)"
    by (simp_all add: POOL_MAX_CONTEXTS_def null_pool_def)
  have n1: "AudioPool_pass1 Null_backend sound_example [0..<0] null_pool = Inr (None, null_pool)"
    by simp
  have n2: "ctx_count Null_backend (context_pool null_pool ! 0) = 0"
    "Audio_Init Null_backend (context_pool null_pool ! 0) 1 (world null_pool)
       = Inr (ERR_NOT_SUPPORTED, \<lparr>count_null = 0\<rparr>, ())"
    by (simp_all add: Null_backend_def null_pool_def POOL_MAX_CONTEXTS_def)
  from C10_pass1_error_returns [OF n0 n1, where res = ERR_NOT_SUPPORTED and c = "\<lparr>count_null = 0\<rparr>" and w = "()"] n2
  have one: "AudioPool_Play Null_backend sound_example null_pool
     = Inr (ERR_NOT_SUPPORTED, null_pool\<lparr>pool_calls := [CallInit 0]\<rparr>)"
    by (simp add: null_pool_def POOL_MAX_CONTEXTS_def list_update_same_conv)
  define st where "st = mm_failing_pool\<lparr>inUse := 1, pool_calls := [CallPoll 0]\<rparr>"
  have p0: "Audio_Poll_WinMM mm_busy_context (mm_driver_ok\<lparr>waveOutUnprepareHeader_res := (\<lambda>i. 33)\<rparr>)
      = Inr (Success, 1, mm_busy_context, [])" by code_simp
  have p1: "Audio_Poll_WinMM mm_done_context (mm_driver_ok\<lparr>waveOutUnprepareHeader_res := (\<lambda>i. 33)\<rparr>)
      = Inr (Native 33, 0, mm_done_context, [WaveOutUnprepareHeader 0])" by code_simp
  have cnt: "count_mm mm_busy_context \<noteq> 0" "count_mm mm_done_context \<noteq> 0" by code_simp+
  have m0: "(1::nat) < POOL_MAX_CONTEXTS" "1 < length (context_pool st)"
    by (simp_all add: POOL_MAX_CONTEXTS_def st_def mm_failing_pool_def)
  have m1: "AudioPool_pass1 WinMM_backend sound_example [0..<1] mm_failing_pool = Inr (None, st)"
    using p0 cnt
    by (simp add: pool_lazy_Init_def pool_Poll_def WinMM_backend_def mm_failing_pool_def
        mm_world_unprepare_fails_def st_def)
  have m2: "ctx_count WinMM_backend (context_pool st ! 1) \<noteq> 0"
    "Audio_Poll WinMM_backend (context_pool st ! 1) (inUse st) (world st)
       = Inr (Native 33, 0, mm_done_context, mm_world_unprepare_fails\<lparr>mm_calls := [WaveOutUnprepareHeader 0]\<rparr>)"
    using p1 cnt by (simp_all add: WinMM_backend_def st_def mm_failing_pool_def mm_world_unprepare_fails_def)
  from C10_pass1_error_returns [OF m0 m1, where res = "Native 33" and n = 0 and c = mm_done_context
      and w = "mm_world_unprepare_fails\<lparr>mm_calls := [WaveOutUnprepareHeader 0]\<rparr>"] m2
  have two: "AudioPool_Play WinMM_backend sound_example mm_failing_pool
     = Inr (Native 33, mm_failing_pool\<lparr>
          world := mm_world_unprepare_fails\<lparr>mm_calls := [WaveOutUnprepareHeader 0]\<rparr>,
          inUse := 0, pool_calls := [CallPoll 0, CallPoll 1]\<rparr>)"
    by (simp add: st_def mm_failing_pool_def)
  have a0: "(0::nat) < POOL_MAX_CONTEXTS" "0 < length (context_pool al_fresh_pool)"
    by (simp_all add: POOL_MAX_CONTEXTS_def al_fresh_pool_def)
  have a1: "AudioPool_pass1 OpenAL_backend sound_example [0..<0] al_fresh_pool = Inr (None, al_fresh_pool)"
    by simp
  have i0: "Audio_Init_OpenAL al_zero_context 1 al_init_driver_ok = Inr (Success, al_one_context)"
    by code_simp
  have i1: "Audio_Poll_OpenAL al_one_context \<lparr>alGetSourcei_err = 0xA004, alGetSourcei_processed = 0,
                    alSourceUnqueueBuffers_err = 0, alSourceUnqueueBuffers_name = 0\<rparr>
      = Inr (Native 0xA004, 0, al_one_context)"
    by code_simp
  have i2: "count_al al_zero_context = 0" by code_simp
  have a2: "ctx_count OpenAL_backend (context_pool al_fresh_pool ! 0) = 0"
    "Audio_Init OpenAL_backend (context_pool al_fresh_pool ! 0) 1 (world al_fresh_pool)
       = Inr (Success, al_one_context, al_world_poll_fails)"
    "Audio_Poll OpenAL_backend al_one_context (inUse al_fresh_pool) al_world_poll_fails
       = Inr (Native 0xA004, 0, al_one_context, al_world_poll_fails)"
    using i0 i1 i2
    by (simp_all add: OpenAL_backend_def al_fresh_pool_def al_world_poll_fails_def POOL_MAX_CONTEXTS_def)
  from C10_pass1_error_returns [OF a0 a1, where res = "Native 0xA004" and n = 0 and c = al_one_context
      and w = al_world_poll_fails and ?c1.0 = al_one_context and ?w1.0 = al_world_poll_fails] a2
  have three: "AudioPool_Play OpenAL_backend sound_example al_fresh_pool
     = Inr (Native 0xA004, al_fresh_pool\<lparr>
          context_pool := al_one_context # replicate 7 al_zero_context,
          inUse := 0, pool_calls := [CallInit 0, CallPoll 0]\<rparr>)"
    by (simp add: al_fresh_pool_def POOL_MAX_CONTEXTS_def numeral_eq_Suc)
  from one two three show ?thesis by simp
qed


end
